theory Spec2Isabelle
  imports Main "HOL-Library.AList"
begin

section \<open>The Polarion session of \<^verbatim>\<open>src/polarion.ts\<close>\<close>

text \<open>
  The class \<^verbatim>\<open>Polarion\<close> is embedded as a record of its fields and its methods as
  state-passing functions on that record. Conventions of the embedding:

  \<^item> A string is the list of the bytes of its UTF-8 encoding, which is what
    \<^verbatim>\<open>Buffer.from\<close> makes of it; a value of type \<^verbatim>\<open>string | undefined\<close> is a
    \<open>string option\<close>, and JavaScript truthiness of such a value (\<open>truthy\<close>) is
    "present and not the empty string".
  \<^item> Numbers read from the settings (\<^verbatim>\<open>RefreshTime\<close>, \<^verbatim>\<open>ExceptionRestart\<close>) and
    the milliseconds of a \<^verbatim>\<open>Date\<close> are integers. A method reads the clock as the
    parameter \<open>now\<close>, the same at every \<^verbatim>\<open>new Date()\<close> of one call.
  \<^item> The remote service is a parameter \<open>srv\<close>: one function per REST endpoint, giving
    the outcome of the \<open>n\<close>-th request of a client (a response with its status and
    the data the code reads from it, or the error \<^verbatim>\<open>httpClient.get\<close> rejects with).
    Every request is appended to the field \<open>sent\<close> of the client that issued it.
  \<^item> An exception is a value of type \<open>exn\<close>; a \<^verbatim>\<open>try\<close> block is a function returning
    \<open>exn + 'a\<close> and its \<^verbatim>\<open>catch\<close> the case distinction on that result.
  \<^item> \<^verbatim>\<open>report\<close> only changes the session when it is called with \<^verbatim>\<open>popup = true\<close>;
    the lines written to the output channel and the notifications shown by the editor
    are outside the model, so calls with \<^verbatim>\<open>popup = false\<close> do not appear.
  \<^item> \<^verbatim>\<open>createPolarion\<close> is not awaited by its caller in the source; here it runs to
    completion at the point of the call. What it assigns to the module variable
    \<^verbatim>\<open>polarion\<close> is returned next to the state of \<^verbatim>\<open>this\<close>.
\<close>

subsection \<open>JavaScript strings\<close>

definition truthy :: "string option \<Rightarrow> bool" where
  "truthy v = (case v of None \<Rightarrow> False | Some s \<Rightarrow> s \<noteq> [])"

text \<open>\<^verbatim>\<open>a || b\<close> on optional strings, and \<^verbatim>\<open>a || 'literal'\<close>.\<close>

definition jor :: "string option \<Rightarrow> string option \<Rightarrow> string option" where
  "jor a b = (if truthy a then a else b)"

definition jor_str :: "string option \<Rightarrow> string \<Rightarrow> string" where
  "jor_str a d = (case a of None \<Rightarrow> d | Some s \<Rightarrow> if s \<noteq> [] then s else d)"

definition endsWith :: "string \<Rightarrow> string \<Rightarrow> bool" where
  "endsWith s suffix =
     (length suffix \<le> length s \<and> drop (length s - length suffix) s = suffix)"

text \<open>\<^verbatim>\<open>s.slice(0, -k)\<close>.\<close>

definition slice_end :: "string \<Rightarrow> nat \<Rightarrow> string" where
  "slice_end s k = take (length s - k) s"

text \<open>
  \<^verbatim>\<open>String.prototype.trim\<close> removes the white space and line terminators of ECMAScript
  from both ends: U+0009 to U+000D, U+0020, U+00A0, U+1680, U+2000 to U+200A, U+2028,
  U+2029, U+202F, U+205F, U+3000 and U+FEFF, here in their UTF-8 encodings.
\<close>

definition white_space :: "string list" where
  "white_space =
     [[CHR 0x09], [CHR 0x0A], [CHR 0x0B], [CHR 0x0C], [CHR 0x0D], [CHR 0x20],
      [CHR 0xC2, CHR 0xA0],
      [CHR 0xE1, CHR 0x9A, CHR 0x80],
      [CHR 0xE2, CHR 0x80, CHR 0x80], [CHR 0xE2, CHR 0x80, CHR 0x81],
      [CHR 0xE2, CHR 0x80, CHR 0x82], [CHR 0xE2, CHR 0x80, CHR 0x83],
      [CHR 0xE2, CHR 0x80, CHR 0x84], [CHR 0xE2, CHR 0x80, CHR 0x85],
      [CHR 0xE2, CHR 0x80, CHR 0x86], [CHR 0xE2, CHR 0x80, CHR 0x87],
      [CHR 0xE2, CHR 0x80, CHR 0x88], [CHR 0xE2, CHR 0x80, CHR 0x89],
      [CHR 0xE2, CHR 0x80, CHR 0x8A],
      [CHR 0xE2, CHR 0x80, CHR 0xA8], [CHR 0xE2, CHR 0x80, CHR 0xA9],
      [CHR 0xE2, CHR 0x80, CHR 0xAF],
      [CHR 0xE2, CHR 0x81, CHR 0x9F],
      [CHR 0xE3, CHR 0x80, CHR 0x80],
      [CHR 0xEF, CHR 0xBB, CHR 0xBF]]"

text \<open>The length of the element of \<open>ws\<close> that \<open>s\<close> starts with, 0 if there is none.\<close>

definition leading :: "string list \<Rightarrow> string \<Rightarrow> nat" where
  "leading ws s =
     (case filter (\<lambda>w. w \<noteq> [] \<and> take (length w) s = w) ws of
        [] \<Rightarrow> 0
      | w # others \<Rightarrow> length w)"

function strip :: "string list \<Rightarrow> string \<Rightarrow> string" where
  "strip ws s = (if leading ws s = 0 then s else strip ws (drop (leading ws s) s))"
  by pat_completeness auto
termination
proof (relation "measure (\<lambda>(ws, s). length s)")
  show "wf (measure (\<lambda>(ws, s). length s))" by simp
next
  fix ws :: "string list" and s :: string
  assume n: "leading ws s \<noteq> 0"
  then obtain w others where f: "filter (\<lambda>w. w \<noteq> [] \<and> take (length w) s = w) ws = w # others"
    by (auto simp: leading_def split: list.splits)
  then have "w \<in> set (filter (\<lambda>w. w \<noteq> [] \<and> take (length w) s = w) ws)" by simp
  then have "w \<noteq> []" and "take (length w) s = w" by simp_all
  then have "s \<noteq> []" by auto
  with n show "((ws, drop (leading ws s) s), (ws, s)) \<in> measure (\<lambda>(ws, s). length s)"
    by simp
qed

declare strip.simps [simp del]

definition trimStart :: "string \<Rightarrow> string" where
  "trimStart s = strip white_space s"

definition trimEnd :: "string \<Rightarrow> string" where
  "trimEnd s = rev (strip (map rev white_space) (rev s))"

definition trim :: "string \<Rightarrow> string" where
  "trim s = trimEnd (trimStart s)"

text \<open>
  \<^verbatim>\<open>toLowerCase\<close>, on the letters A to Z. The code compares the result with \<^verbatim>\<open>gif\<close>,
  \<^verbatim>\<open>jpg\<close>, \<^verbatim>\<open>jpeg\<close> and \<^verbatim>\<open>svg\<close>, and no character outside ASCII has a lower case
  made of the letters of these words.
\<close>

definition toLowerCase :: "string \<Rightarrow> string" where
  "toLowerCase s =
     map (\<lambda>c. let n = (of_char c :: nat) in
               if 65 \<le> n \<and> n \<le> 90 then char_of (n + 32) else c) s"

text \<open>\<^verbatim>\<open>url.split('.').pop()\<close>: the part after the last dot.\<close>

definition last_segment :: "string \<Rightarrow> string" where
  "last_segment s = rev (takeWhile (\<lambda>c. c \<noteq> CHR ''.'') (rev s))"

subsection \<open>Base64, as \<^verbatim>\<open>Buffer.toString('base64')\<close>\<close>

definition b64_alphabet :: string where
  "b64_alphabet =
     ''ABCDEFGHIJKLMNOPQRSTUVWXYZabcdefghijklmnopqrstuvwxyz0123456789+/''"

definition b64_digit :: "nat \<Rightarrow> char" where
  "b64_digit n = b64_alphabet ! (n mod 64)"

fun base64 :: "string \<Rightarrow> string" where
  "base64 [] = []"
| "base64 [a] =
     (let n = of_char a * 16
      in [b64_digit (n div 64), b64_digit n, CHR ''='', CHR ''=''])"
| "base64 [a, b] =
     (let n = (of_char a * 256 + of_char b) * 4
      in [b64_digit (n div 4096), b64_digit (n div 64), b64_digit n, CHR ''=''])"
| "base64 (a # b # c # rest) =
     (let n = of_char a * 65536 + of_char b * 256 + of_char c
      in [b64_digit (n div 262144), b64_digit (n div 4096),
          b64_digit (n div 64), b64_digit n] @ base64 rest)"

subsection \<open>Exceptions\<close>

datatype exn = Exn (ename: string) (message: string) (response_status: "nat option")

text \<open>\<^verbatim>\<open>`${error}`\<close>.\<close>

definition show_exn :: "exn \<Rightarrow> string" where
  "show_exn e = (if message e = [] then ename e else ename e @ '': '' @ message e)"

definition Error :: "string \<Rightarrow> exn" where
  "Error msg = Exn ''Error'' msg None"

definition TypeError :: "string \<Rightarrow> exn" where
  "TypeError msg = Exn ''TypeError'' msg None"

subsection \<open>Settings\<close>

record file_config =
  fc_username :: "string option"
  fc_password :: "string option"
  fc_useTokenAuth :: "bool option"

text \<open>
  The values of \<^verbatim>\<open>vscode.workspace.getConfiguration('Polarion')\<close> the session reads,
  and the result of \<^verbatim>\<open>utils.getPolarionConfigFromFile()\<close>.
\<close>

record config =
  Url :: "string option"
  UseTokenAuth :: "bool option"
  Username :: "string option"
  Password :: "string option"
  Token :: "string option"
  RefreshTime :: "int option"
  ExceptionRestart :: "int option"
  fileConfig :: "file_config option"

subsection \<open>The service\<close>

datatype responseType = Json | ArrayBuffer

datatype request =
  Get (path: string) (params: "(string \<times> string) list") (rtype: responseType)
      (rheaders: "(string \<times> string) list")

datatype 'a outcome = Response nat 'a | Rejected exn

datatype raw_description = DescriptionText string | DescriptionObject "string option"

record raw_fields =
  f_id :: "string option"
  f_title :: "string option"
  f_project :: "string option"
  f_status :: "string option"
  f_type :: "string option"
  f_description :: "raw_description option"

text \<open>
  An element of \<^verbatim>\<open>response.data.data\<close> of the work item query: its own fields, its
  \<^verbatim>\<open>attributes\<close> object, and the ids under \<^verbatim>\<open>relationships\<close> and \<^verbatim>\<open>author\<close>.
\<close>

record raw_item =
  top :: raw_fields
  attributes :: "raw_fields option"
  rel_project :: "string option"
  rel_author :: "string option"
  author_id :: "string option"

record raw_option =
  o_id :: "string option"
  o_name :: "string option"
  o_color :: "string option"
  o_iconURL :: "string option"

record raw_user =
  u_name :: "string option"
  u_email :: "string option"
  u_initials :: "string option"

text \<open>
  The data of each endpoint is \<open>None\<close> where the code finds \<^verbatim>\<open>response.data?.data\<close>
  (for the type enumeration: \<^verbatim>\<open>response.data?.data?.attributes?.options\<close>) missing;
  an element \<open>None\<close> of a list is a \<^verbatim>\<open>null\<close> element. The user data is the
  \<^verbatim>\<open>attributes\<close> object of the user, if it has one.
\<close>

record server =
  srv_projects :: "nat \<Rightarrow> unit outcome"
  srv_workitems :: "nat \<Rightarrow> string \<Rightarrow> raw_item option list option outcome"
  srv_statusOptions :: "nat \<Rightarrow> string \<Rightarrow> string \<Rightarrow> raw_option option list option outcome"
  srv_typeOptions :: "nat \<Rightarrow> string \<Rightarrow> raw_option option list option outcome"
  srv_users :: "nat \<Rightarrow> string \<Rightarrow> raw_user option option outcome"
  srv_content :: "nat \<Rightarrow> string \<Rightarrow> string outcome"

subsection \<open>The data of a session\<close>

record status_info =
  name :: string
  color :: string
  iconPath :: "string option"

record status_display =
  name :: string
  color :: "string option"
  iconPath :: "string option"

record type_info =
  name :: string
  iconPath :: "string option"

record user_info =
  name :: string
  email :: "string option"
  initials :: "string option"

record item_type =
  id :: string
  name :: string
  iconPath :: "string option"

record item_author =
  id :: string
  name :: string
  email :: "string option"
  initials :: "string option"

record item_status =
  id :: string
  name :: string
  color :: "string option"
  iconPath :: "string option"

text \<open>
  \<^verbatim>\<open>downloadAttachment\<close> is a closure over \<^verbatim>\<open>itemId\<close> and \<^verbatim>\<open>projectId\<close>; the record
  keeps the two captured values (\<open>att_item\<close>, \<open>att_project\<close>).
\<close>

record PolarionWorkItem =
  id :: "string option"
  title :: string
  type :: item_type
  author :: item_author
  status :: item_status
  description :: "raw_description option"
  unresolvable :: string
  project :: string
  att_item :: string
  att_project :: string

record item_entry =
  workitem :: "PolarionWorkItem option"
  time :: int

record status_entry =
  statuses :: "string \<rightharpoonup> status_info"
  time :: int

record type_entry =
  types :: "string \<rightharpoonup> type_info"
  time :: int

record user_entry =
  user :: user_info
  time :: int

record httpClient =
  baseURL :: string
  timeout :: nat
  common :: "(string \<times> string) list"
  sent :: "request list"

record Polarion =
  httpClient :: httpClient
  polarionUser :: string
  polarionPassword :: string
  polarionUrl :: string
  useTokenAuth :: bool
  polarionToken :: "string option"
  initialized :: bool
  authHeaders :: "(string \<times> string) list"
  numberOfPopupsToShow :: nat
  lastMessage :: "string option"
  itemCache :: "string \<rightharpoonup> item_entry"
  attachmentCache :: "string \<rightharpoonup> string"
  statusCache :: "string \<rightharpoonup> status_entry"
  workitemTypeCache :: "string \<rightharpoonup> type_entry"
  iconCache :: "string \<rightharpoonup> string"
  userCache :: "string \<rightharpoonup> user_entry"
  exceptionCount :: nat

subsection \<open>Construction, authentication and the connection test\<close>

datatype LogLevel = info | error

definition report :: "string \<Rightarrow> LogLevel \<Rightarrow> bool \<Rightarrow> Polarion \<Rightarrow> Polarion" where
  "report msg level popup s =
     (if popup \<and> numberOfPopupsToShow s > 0
      then s\<lparr>numberOfPopupsToShow := numberOfPopupsToShow s - 1, lastMessage := Some msg\<rparr>
      else s)"

definition new_Polarion :: "string \<Rightarrow> string \<Rightarrow> string \<Rightarrow> bool \<Rightarrow> Polarion" where
  "new_Polarion url username password useToken =
     \<lparr> httpClient = \<lparr> baseURL = url, timeout = 30000, common = [], sent = [] \<rparr>,
       polarionUser = username,
       polarionPassword = password,
       polarionUrl = url,
       useTokenAuth = useToken,
       polarionToken = None,
       initialized = False,
       authHeaders = [],
       numberOfPopupsToShow = 2,
       lastMessage = None,
       itemCache = Map.empty,
       attachmentCache = Map.empty,
       statusCache = Map.empty,
       workitemTypeCache = Map.empty,
       iconCache = Map.empty,
       userCache = Map.empty,
       exceptionCount = 0 \<rparr>"

text \<open>A request through \<^verbatim>\<open>this.httpClient\<close>: it is logged, whatever its outcome.\<close>

definition issue :: "request \<Rightarrow> Polarion \<Rightarrow> Polarion" where
  "issue r s = s\<lparr>httpClient := (httpClient s)\<lparr>sent := sent (httpClient s) @ [r]\<rparr>\<rparr>"

definition sent_count :: "Polarion \<Rightarrow> nat" where
  "sent_count s = length (sent (httpClient s))"

definition retrieveTokenFromSettings :: "config \<Rightarrow> Polarion \<Rightarrow> Polarion" where
  "retrieveTokenFromSettings cfg s =
     (let s1 = s\<lparr>polarionToken := (if truthy (Token cfg) then Token cfg else None)\<rparr>
      in case polarionToken s1 of
           Some t \<Rightarrow>
             if t \<noteq> [] \<and> trim t \<noteq> [] then s1
             else report ''No token found in VS Code settings (Polarion.Token)'' error True s1
         | None \<Rightarrow> report ''No token found in VS Code settings (Polarion.Token)'' error True s1)"

text \<open>The object spread \<^verbatim>\<open>{...a, ...b}\<close>: the keys of \<open>b\<close> override those of \<open>a\<close>.\<close>

definition spread :: "(string \<times> string) list \<Rightarrow> (string \<times> string) list \<Rightarrow> (string \<times> string) list" where
  "spread a b = foldl (\<lambda>acc (k, v). AList.update k v acc) a b"

definition set_default_headers :: "Polarion \<Rightarrow> Polarion" where
  "set_default_headers s =
     s\<lparr>httpClient := (httpClient s)\<lparr>common := spread (common (httpClient s)) (authHeaders s)\<rparr>\<rparr>"

definition setupAuthentication :: "Polarion \<Rightarrow> exn + Polarion" where
  "setupAuthentication s =
     (if useTokenAuth s \<and> truthy (polarionToken s) \<and> trim (the (polarionToken s)) \<noteq> []
      then Inr (set_default_headers
                  (s\<lparr>authHeaders := [(''Authorization'', ''Bearer '' @ the (polarionToken s))]\<rparr>))
      else if \<not> useTokenAuth s \<and> polarionUser s \<noteq> [] \<and> polarionPassword s \<noteq> []
      then (let credentials = base64 (polarionUser s @ '':'' @ polarionPassword s)
            in Inr (set_default_headers
                      (s\<lparr>authHeaders := [(''Authorization'', ''Basic '' @ credentials)]\<rparr>)))
      else Inl (Error ''No valid authentication method configured''))"

definition testConnection :: "server \<Rightarrow> Polarion \<Rightarrow> (exn + unit) \<times> Polarion" where
  "testConnection srv s =
     (let s1 = issue (Get ''/polarion/rest/v1/projects'' [] Json []) s
      in case srv_projects srv (sent_count s) of
           Response st d \<Rightarrow> (Inr (), s1)
         | Rejected e \<Rightarrow>
             (if response_status e = Some 401
              then (Inl (Error ''Authentication failed - check your credentials''), s1)
              else if response_status e = Some 403
              then (Inl (Error ''Access forbidden - check your permissions''), s1)
              else (Inl (Error (''Connection test failed: '' @ message e)), s1)))"

text \<open>The \<^verbatim>\<open>try\<close> block of \<^verbatim>\<open>initialize\<close>, up to the point where it succeeds or throws.\<close>

definition initialize_try :: "server \<Rightarrow> config \<Rightarrow> Polarion \<Rightarrow> (exn + unit) \<times> Polarion" where
  "initialize_try srv cfg s =
     (let s1 = (if useTokenAuth s then retrieveTokenFromSettings cfg s else s)
      in case setupAuthentication s1 of
           Inl e \<Rightarrow> (Inl e, s1)
         | Inr s2 \<Rightarrow> testConnection srv s2)"

definition initialize :: "server \<Rightarrow> config \<Rightarrow> Polarion \<Rightarrow> Polarion" where
  "initialize srv cfg s =
     (case initialize_try srv cfg s of
        (Inr u, s1) \<Rightarrow>
          report ''Polarion REST API connection established'' info True (s1\<lparr>initialized := True\<rparr>)
      | (Inl e, s1) \<Rightarrow>
          (report (''Failed to initialize Polarion REST API: '' @ show_exn e) error True s1)
            \<lparr>initialized := False\<rparr>)"

text \<open>
  \<^verbatim>\<open>createPolarion\<close>: the result is the object assigned to the module variable
  \<^verbatim>\<open>polarion\<close>, after its \<^verbatim>\<open>initialize()\<close>, or \<open>None\<close> when the settings are incomplete
  and the variable keeps its value. The decoration of the visible editors that follows
  in the source belongs to the editor and is not part of the session.
\<close>

definition createPolarion :: "server \<Rightarrow> config \<Rightarrow> Polarion option" where
  "createPolarion srv cfg =
     (let useTokenAuth0 = (case UseTokenAuth cfg of None \<Rightarrow> True | Some b \<Rightarrow> b);
          username = (case fileConfig cfg of None \<Rightarrow> Username cfg | Some fc \<Rightarrow> fc_username fc);
          password = (case fileConfig cfg of None \<Rightarrow> Password cfg | Some fc \<Rightarrow> fc_password fc);
          useToken = (case fileConfig cfg of
                        None \<Rightarrow> useTokenAuth0
                      | Some fc \<Rightarrow> (case fc_useTokenAuth fc of None \<Rightarrow> useTokenAuth0 | Some b \<Rightarrow> b))
      in case Url cfg of
           None \<Rightarrow> None
         | Some url \<Rightarrow>
             if url = [] then None
             else if useToken \<or> (truthy username \<and> truthy password)
             then Some (initialize srv cfg
                          (new_Polarion url (jor_str username [])
                             (jor_str password []) useToken))
             else None)"

subsection \<open>Icons and attachments\<close>

definition mimeType :: "string \<Rightarrow> string" where
  "mimeType iconURL =
     (let extension = toLowerCase (last_segment iconURL)
      in if extension = ''gif'' then ''image/gif''
         else if extension = ''jpg'' \<or> extension = ''jpeg'' then ''image/jpeg''
         else if extension = ''svg'' then ''image/svg+xml''
         else ''image/png'')"

definition downloadStatusIcon :: "server \<Rightarrow> string \<Rightarrow> Polarion \<Rightarrow> string option \<times> Polarion" where
  "downloadStatusIcon srv iconURL s =
     (case iconCache s iconURL of
        Some cached \<Rightarrow> (Some cached, s)
      | None \<Rightarrow>
          (let s1 = issue (Get iconURL [] ArrayBuffer [(''Accept'', ''image/*'')]) s
           in case srv_content srv (sent_count s) iconURL of
                Response st d \<Rightarrow>
                  if st = 200
                  then (let dataUri = ''data:'' @ mimeType iconURL @ '';base64,'' @ base64 d
                        in (Some dataUri, s1\<lparr>iconCache := (iconCache s1)(iconURL \<mapsto> dataUri)\<rparr>))
                  else (None, s1)
              | Rejected e \<Rightarrow> (None, s1)))"

definition downloadWorkitemTypeIcon :: "server \<Rightarrow> string \<Rightarrow> Polarion \<Rightarrow> string option \<times> Polarion" where
  "downloadWorkitemTypeIcon srv iconURL s = downloadStatusIcon srv iconURL s"

definition downloadWorkitemAttachmentForProject ::
  "server \<Rightarrow> string \<Rightarrow> string \<Rightarrow> string \<Rightarrow> Polarion \<Rightarrow> string option \<times> Polarion" where
  "downloadWorkitemAttachmentForProject srv workitemId attachmentId projectId s =
     (let cacheKey = workitemId @ '':'' @ attachmentId
      in case attachmentCache s cacheKey of
           Some cached \<Rightarrow> (if cached \<noteq> [] then Some cached else None, s)
         | None \<Rightarrow>
             (let s1 = issue (Get (''/polarion/rest/v1/projects/'' @ projectId @ ''/workitems/''
                                     @ workitemId @ ''/attachments/'' @ attachmentId @ ''/content'')
                                [] ArrayBuffer [(''Accept'', ''*/*'')]) s
              in case srv_content srv (sent_count s)
                        (''/polarion/rest/v1/projects/'' @ projectId @ ''/workitems/''
                           @ workitemId @ ''/attachments/'' @ attachmentId @ ''/content'') of
                   Response st d \<Rightarrow>
                     if st = 200
                     then (Some (base64 d),
                           s1\<lparr>attachmentCache := (attachmentCache s1)(cacheKey \<mapsto> base64 d)\<rparr>)
                     else (None, s1)
                 | Rejected e \<Rightarrow> (None, s1)))"

subsection \<open>Staleness of a timestamped cache entry\<close>

text \<open>
  The test the item, status, type and user caches each make on an entry found:
  \<^verbatim>\<open>minutes && delta > minutes * 60 * 1000\<close>, with \<^verbatim>\<open>delta = Math.abs(now - entry.time)\<close>.
\<close>

definition stale :: "config \<Rightarrow> int \<Rightarrow> int \<Rightarrow> bool" where
  "stale cfg now t =
     (case RefreshTime cfg of
        None \<Rightarrow> False
      | Some minutes \<Rightarrow> minutes \<noteq> 0 \<and> \<bar>now - t\<bar> > minutes * 60 * 1000)"

subsection \<open>Status enumeration\<close>

text \<open>The body of the loop over \<^verbatim>\<open>statusOptions\<close>, for an option that is an object.\<close>

definition add_status_option ::
  "server \<Rightarrow> raw_option \<Rightarrow> (string \<rightharpoonup> status_info) \<Rightarrow> Polarion
     \<Rightarrow> (string \<rightharpoonup> status_info) \<times> Polarion" where
  "add_status_option srv opt statusMap s =
     (if truthy (o_id opt) \<and> truthy (o_name opt)
      then (case (if truthy (o_iconURL opt)
                  then downloadStatusIcon srv (the (o_iconURL opt)) s
                  else (None, s)) of
              (icon, s1) \<Rightarrow>
                (statusMap(the (o_id opt) \<mapsto>
                   \<lparr> status_info.name = the (o_name opt),
                      status_info.color = jor_str (o_color opt) ''#000000'',
                      status_info.iconPath = (if truthy icon then icon else None) \<rparr>), s1))
      else (statusMap, s))"

text \<open>The loop; reading a property of a \<^verbatim>\<open>null\<close> option throws.\<close>

fun process_status_options ::
  "server \<Rightarrow> raw_option option list \<Rightarrow> (string \<rightharpoonup> status_info) \<Rightarrow> Polarion
     \<Rightarrow> (exn + (string \<rightharpoonup> status_info)) \<times> Polarion" where
  "process_status_options srv [] statusMap s = (Inr statusMap, s)"
| "process_status_options srv (None # rest) statusMap s =
     (Inl (TypeError ''Cannot read properties of null''), s)"
| "process_status_options srv (Some opt # rest) statusMap s =
     (case add_status_option srv opt statusMap s of
        (statusMap1, s1) \<Rightarrow> process_status_options srv rest statusMap1 s1)"

definition fetchStatusMappings_try ::
  "server \<Rightarrow> int \<Rightarrow> string \<Rightarrow> string \<Rightarrow> Polarion \<Rightarrow> (exn + unit) \<times> Polarion" where
  "fetchStatusMappings_try srv now projectId workitemType s =
     (let s1 = issue (Get (''/polarion/rest/v1/projects/'' @ projectId
                             @ ''/workitems/fields/status/actions/getAvailableOptions'')
                        [(''type'', workitemType)] Json []) s
      in case srv_statusOptions srv (sent_count s) projectId workitemType of
           Rejected e \<Rightarrow> (Inl e, s1)
         | Response st d \<Rightarrow>
             (case d of
                None \<Rightarrow> (Inr (), s1)
              | Some statusOptions \<Rightarrow>
                  if st = 200
                  then (case process_status_options srv statusOptions Map.empty s1 of
                          (Inl e, s2) \<Rightarrow> (Inl e, s2)
                        | (Inr statusMap, s2) \<Rightarrow>
                            (Inr (),
                             s2\<lparr>statusCache := (statusCache s2)
                                   (projectId @ '':'' @ workitemType \<mapsto>
                                      \<lparr> statuses = statusMap, status_entry.time = now \<rparr>)\<rparr>))
                  else (Inr (), s1)))"

definition fetchStatusMappingsFromPolarion ::
  "server \<Rightarrow> int \<Rightarrow> string \<Rightarrow> string \<Rightarrow> Polarion \<Rightarrow> Polarion" where
  "fetchStatusMappingsFromPolarion srv now projectId workitemType s =
     (case fetchStatusMappings_try srv now projectId workitemType s of
        (Inr u, s1) \<Rightarrow> s1
      | (Inl e, s1) \<Rightarrow>
          s1\<lparr>statusCache := (statusCache s1)
                (projectId @ '':'' @ workitemType \<mapsto>
                   \<lparr> statuses = Map.empty, status_entry.time = now \<rparr>)\<rparr>)"

definition getStatusMappings ::
  "server \<Rightarrow> config \<Rightarrow> int \<Rightarrow> string \<Rightarrow> string \<Rightarrow> Polarion
     \<Rightarrow> (string \<rightharpoonup> status_info) \<times> Polarion" where
  "getStatusMappings srv cfg now projectId workitemType s =
     (if \<not> initialized s then (Map.empty, s)
      else (let cacheKey = projectId @ '':'' @ workitemType;
                fetchStatuses = (case statusCache s cacheKey of
                                   None \<Rightarrow> True
                                 | Some cachedData \<Rightarrow> stale cfg now (status_entry.time cachedData));
                s1 = (if fetchStatuses
                      then fetchStatusMappingsFromPolarion srv now projectId workitemType s
                      else s)
            in case statusCache s1 cacheKey of
                 Some cachedData \<Rightarrow> (statuses cachedData, s1)
               | None \<Rightarrow> (Map.empty, s1)))"

definition getStatusDisplayInfo ::
  "server \<Rightarrow> config \<Rightarrow> int \<Rightarrow> string \<Rightarrow> string \<Rightarrow> string \<Rightarrow> Polarion
     \<Rightarrow> status_display \<times> Polarion" where
  "getStatusDisplayInfo srv cfg now statusId projectId workitemType s =
     (let (statusMap, s1) = getStatusMappings srv cfg now projectId workitemType s
      in case statusMap statusId of
           Some statusInfo \<Rightarrow>
             (\<lparr> status_display.name = status_info.name statusInfo,
                status_display.color = Some (status_info.color statusInfo),
                status_display.iconPath = status_info.iconPath statusInfo \<rparr>, s1)
         | None \<Rightarrow>
             (\<lparr> status_display.name = statusId, status_display.color = None,
                status_display.iconPath = None \<rparr>, s1))"

subsection \<open>Work item type enumeration\<close>

definition add_type_option ::
  "server \<Rightarrow> raw_option \<Rightarrow> (string \<rightharpoonup> type_info) \<Rightarrow> Polarion
     \<Rightarrow> (string \<rightharpoonup> type_info) \<times> Polarion" where
  "add_type_option srv opt typeMap s =
     (if truthy (o_id opt) \<and> truthy (o_name opt)
      then (case (if truthy (o_iconURL opt)
                  then downloadWorkitemTypeIcon srv (the (o_iconURL opt)) s
                  else (None, s)) of
              (icon, s1) \<Rightarrow>
                (typeMap(the (o_id opt) \<mapsto>
                   \<lparr> type_info.name = the (o_name opt),
                      type_info.iconPath = (if truthy icon then icon else None) \<rparr>), s1))
      else (typeMap, s))"

fun process_type_options ::
  "server \<Rightarrow> raw_option option list \<Rightarrow> (string \<rightharpoonup> type_info) \<Rightarrow> Polarion
     \<Rightarrow> (exn + (string \<rightharpoonup> type_info)) \<times> Polarion" where
  "process_type_options srv [] typeMap s = (Inr typeMap, s)"
| "process_type_options srv (None # rest) typeMap s =
     (Inl (TypeError ''Cannot read properties of null''), s)"
| "process_type_options srv (Some opt # rest) typeMap s =
     (case add_type_option srv opt typeMap s of
        (typeMap1, s1) \<Rightarrow> process_type_options srv rest typeMap1 s1)"

definition fetchWorkitemTypeMappings_try ::
  "server \<Rightarrow> int \<Rightarrow> string \<Rightarrow> Polarion \<Rightarrow> (exn + unit) \<times> Polarion" where
  "fetchWorkitemTypeMappings_try srv now projectId s =
     (let s1 = issue (Get (''/polarion/rest/v1/projects/'' @ projectId
                             @ ''/enumerations/~/workitem-type/~'') [] Json []) s
      in case srv_typeOptions srv (sent_count s) projectId of
           Rejected e \<Rightarrow> (Inl e, s1)
         | Response st d \<Rightarrow>
             (case d of
                None \<Rightarrow> (Inr (), s1)
              | Some typeOptions \<Rightarrow>
                  if st = 200
                  then (case process_type_options srv typeOptions Map.empty s1 of
                          (Inl e, s2) \<Rightarrow> (Inl e, s2)
                        | (Inr typeMap, s2) \<Rightarrow>
                            (Inr (),
                             s2\<lparr>workitemTypeCache := (workitemTypeCache s2)
                                   (projectId \<mapsto> \<lparr> types = typeMap, type_entry.time = now \<rparr>)\<rparr>))
                  else (Inr (), s1)))"

definition fetchWorkitemTypeMappingsFromPolarion ::
  "server \<Rightarrow> int \<Rightarrow> string \<Rightarrow> Polarion \<Rightarrow> Polarion" where
  "fetchWorkitemTypeMappingsFromPolarion srv now projectId s =
     (case fetchWorkitemTypeMappings_try srv now projectId s of
        (Inr u, s1) \<Rightarrow> s1
      | (Inl e, s1) \<Rightarrow>
          s1\<lparr>workitemTypeCache := (workitemTypeCache s1)
                (projectId \<mapsto> \<lparr> types = Map.empty, type_entry.time = now \<rparr>)\<rparr>)"

definition getWorkitemTypeMappings ::
  "server \<Rightarrow> config \<Rightarrow> int \<Rightarrow> string \<Rightarrow> Polarion \<Rightarrow> (string \<rightharpoonup> type_info) \<times> Polarion" where
  "getWorkitemTypeMappings srv cfg now projectId s =
     (if \<not> initialized s then (Map.empty, s)
      else (let fetchTypes = (case workitemTypeCache s projectId of
                                None \<Rightarrow> True
                              | Some cachedData \<Rightarrow> stale cfg now (type_entry.time cachedData));
                s1 = (if fetchTypes
                      then fetchWorkitemTypeMappingsFromPolarion srv now projectId s
                      else s)
            in case workitemTypeCache s1 projectId of
                 Some cachedData \<Rightarrow> (types cachedData, s1)
               | None \<Rightarrow> (Map.empty, s1)))"

definition getWorkitemTypeDisplayInfo ::
  "server \<Rightarrow> config \<Rightarrow> int \<Rightarrow> string \<Rightarrow> string \<Rightarrow> Polarion \<Rightarrow> type_info \<times> Polarion" where
  "getWorkitemTypeDisplayInfo srv cfg now typeId projectId s =
     (let (typeMap, s1) = getWorkitemTypeMappings srv cfg now projectId s
      in case typeMap typeId of
           Some typeInfo \<Rightarrow> (typeInfo, s1)
         | None \<Rightarrow> (\<lparr> type_info.name = typeId, type_info.iconPath = None \<rparr>, s1))"

subsection \<open>Users\<close>

definition name_only :: "string \<Rightarrow> user_info" where
  "name_only userId =
     \<lparr> user_info.name = userId, user_info.email = None, user_info.initials = None \<rparr>"

definition fetchUserFromPolarion :: "server \<Rightarrow> int \<Rightarrow> string \<Rightarrow> Polarion \<Rightarrow> Polarion" where
  "fetchUserFromPolarion srv now userId s =
     (let s1 = issue (Get (''/polarion/rest/v1/users/'' @ userId)
                        [(''fields[users]'', ''id,name,email,initials'')] Json []) s
      in case srv_users srv (sent_count s) userId of
           Rejected e \<Rightarrow>
             s1\<lparr>userCache := (userCache s1)
                   (userId \<mapsto> \<lparr> user = name_only userId, user_entry.time = now \<rparr>)\<rparr>
         | Response st d \<Rightarrow>
             (case d of
                None \<Rightarrow>
                  s1\<lparr>userCache := (userCache s1)
                        (userId \<mapsto> \<lparr> user = name_only userId, user_entry.time = now \<rparr>)\<rparr>
              | Some userData \<Rightarrow>
                  if st = 200
                  then (let userInfo =
                              (case userData of
                                 None \<Rightarrow> name_only userId
                               | Some a \<Rightarrow> \<lparr> user_info.name = jor_str (u_name a) userId,
                                             user_info.email = u_email a,
                                             user_info.initials = u_initials a \<rparr>)
                        in s1\<lparr>userCache := (userCache s1)
                                (userId \<mapsto> \<lparr> user = userInfo, user_entry.time = now \<rparr>)\<rparr>)
                  else s1\<lparr>userCache := (userCache s1)
                            (userId \<mapsto> \<lparr> user = name_only userId, user_entry.time = now \<rparr>)\<rparr>))"

definition getUserInfo ::
  "server \<Rightarrow> config \<Rightarrow> int \<Rightarrow> string \<Rightarrow> Polarion \<Rightarrow> user_info \<times> Polarion" where
  "getUserInfo srv cfg now userId s =
     (if \<not> initialized s then (name_only userId, s)
      else (let fetchUser = (case userCache s userId of
                               None \<Rightarrow> True
                             | Some cachedData \<Rightarrow> stale cfg now (user_entry.time cachedData));
                s1 = (if fetchUser then fetchUserFromPolarion srv now userId s else s)
            in case userCache s1 userId of
                 Some cachedData \<Rightarrow> (user cachedData, s1)
               | None \<Rightarrow> (name_only userId, s1)))"

definition getUserDisplayInfo ::
  "server \<Rightarrow> config \<Rightarrow> int \<Rightarrow> string \<Rightarrow> Polarion \<Rightarrow> user_info \<times> Polarion" where
  "getUserDisplayInfo srv cfg now userId s = getUserInfo srv cfg now userId s"

subsection \<open>Work items\<close>

definition truthy_description :: "raw_description option \<Rightarrow> bool" where
  "truthy_description d =
     (case d of
        None \<Rightarrow> False
      | Some (DescriptionText t) \<Rightarrow> t \<noteq> []
      | Some (DescriptionObject v) \<Rightarrow> True)"

text \<open>\<^verbatim>\<open>description.value || description\<close>.\<close>

definition description_content :: "raw_description \<Rightarrow> raw_description" where
  "description_content d =
     (case d of
        DescriptionText t \<Rightarrow> d
      | DescriptionObject v \<Rightarrow> if truthy v then DescriptionText (the v) else d)"

text \<open>The transformation of the first element of the response into a work item.\<close>

definition hydrate ::
  "server \<Rightarrow> config \<Rightarrow> int \<Rightarrow> string \<Rightarrow> raw_item \<Rightarrow> Polarion \<Rightarrow> PolarionWorkItem \<times> Polarion" where
  "hydrate srv cfg now itemId workItem s =
     (let attrs = (case attributes workItem of Some a \<Rightarrow> a | None \<Rightarrow> top workItem);
          projectId = jor_str (jor (rel_project workItem) (f_project attrs)) ''unknown'';
          statusId = jor_str (jor (f_status attrs) (f_status (top workItem))) ''unknown'';
          workitemType = jor_str (jor (f_type attrs) (f_type (top workItem))) ''unknown'';
          (statusInfo, s1) = getStatusDisplayInfo srv cfg now statusId projectId workitemType s;
          (typeInfo, s2) = getWorkitemTypeDisplayInfo srv cfg now workitemType projectId s1;
          authorId = jor_str (jor (rel_author workItem) (author_id workItem)) ''unknown'';
          (authorInfo, s3) = getUserDisplayInfo srv cfg now authorId s2
      in (\<lparr> PolarionWorkItem.id = jor (f_id (top workItem)) (f_id attrs),
            title = jor_str (f_title attrs) ''No title'',
            type = \<lparr> item_type.id = workitemType,
                     item_type.name = type_info.name typeInfo,
                     item_type.iconPath = type_info.iconPath typeInfo \<rparr>,
            author = \<lparr> item_author.id = authorId,
                       item_author.name = user_info.name authorInfo,
                       item_author.email = user_info.email authorInfo,
                       item_author.initials = user_info.initials authorInfo \<rparr>,
            status = \<lparr> item_status.id = statusId,
                       item_status.name = status_display.name statusInfo,
                       item_status.color = status_display.color statusInfo,
                       item_status.iconPath = status_display.iconPath statusInfo \<rparr>,
            description =
              (if truthy_description (f_description attrs)
               then Some (description_content (the (f_description attrs)))
               else if truthy_description (f_description (top workItem))
               then Some (description_content (the (f_description (top workItem))))
               else None),
            unresolvable = ''false'',
            project = projectId,
            att_item = itemId,
            att_project = projectId \<rparr>, s3))"

text \<open>The request for a work item, across all projects.\<close>

definition item_query :: "string \<Rightarrow> request" where
  "item_query itemId =
     Get ''/polarion/rest/v1/all/workitems''
       [(''query'', ''id:'' @ itemId),
        (''fields[workitems]'', ''id,title,type,author,status,description,project'')]
       Json []"

text \<open>The \<^verbatim>\<open>try\<close> block of \<^verbatim>\<open>getWorkItemFromPolarion\<close>.\<close>

definition getWorkItemFromPolarion_try ::
  "server \<Rightarrow> config \<Rightarrow> int \<Rightarrow> string \<Rightarrow> Polarion
     \<Rightarrow> (exn + PolarionWorkItem option) \<times> Polarion" where
  "getWorkItemFromPolarion_try srv cfg now itemId s =
     (let s1 = issue (item_query itemId) s
      in case srv_workitems srv (sent_count s) itemId of
           Rejected e \<Rightarrow> (Inl e, s1)
         | Response st d \<Rightarrow>
             (case d of
                Some (first # others) \<Rightarrow>
                  if st = 200
                  then (case first of
                          None \<Rightarrow> (Inl (TypeError ''Cannot read properties of null''), s1)
                        | Some workItem \<Rightarrow>
                            (let (item, s2) = hydrate srv cfg now itemId workItem s1
                             in (Inr (Some item), s2)))
                  else (Inr None, s1)
              | _ \<Rightarrow> (Inr None, s1)))"

text \<open>
  \<^verbatim>\<open>getWorkItemFromPolarion\<close>. The third component is what \<^verbatim>\<open>createPolarion\<close>, when the
  \<^verbatim>\<open>catch\<close> block calls it, assigns to the module variable \<^verbatim>\<open>polarion\<close>; it is \<open>None\<close>
  when there is no call or the call assigns nothing.
\<close>

definition getWorkItemFromPolarion ::
  "server \<Rightarrow> config \<Rightarrow> int \<Rightarrow> string \<Rightarrow> Polarion
     \<Rightarrow> PolarionWorkItem option \<times> Polarion \<times> Polarion option" where
  "getWorkItemFromPolarion srv cfg now itemId s =
     (if initialized s = False then (None, s, None)
      else case getWorkItemFromPolarion_try srv cfg now itemId s of
             (Inr r, s1) \<Rightarrow> (r, s1, None)
           | (Inl e, s1) \<Rightarrow>
               if response_status e = Some 404 then (None, s1, None)
               else if response_status e = Some 401 \<or> response_status e = Some 403
               then (None, s1, None)
               else (case ExceptionRestart cfg of
                       None \<Rightarrow> (None, s1, None)
                     | Some exceptionLimit \<Rightarrow>
                         if exceptionLimit = 0 then (None, s1, None)
                         else if int (exceptionCount s1) > exceptionLimit \<and> exceptionLimit > 0
                         then (None, s1, createPolarion srv cfg)
                         else (None, s1\<lparr>exceptionCount := exceptionCount s1 + 1\<rparr>, None)))"

definition getWorkItem ::
  "server \<Rightarrow> config \<Rightarrow> int \<Rightarrow> string \<Rightarrow> Polarion
     \<Rightarrow> PolarionWorkItem option \<times> Polarion \<times> Polarion option" where
  "getWorkItem srv cfg now workItem s =
     (let fetchItem = (initialized s \<and>
                       (case itemCache s workItem of
                          None \<Rightarrow> True
                        | Some item \<Rightarrow> stale cfg now (item_entry.time item)));
          (s1, created) =
             (if fetchItem
              then (let (item, s', c) = getWorkItemFromPolarion srv cfg now workItem s
                    in (s'\<lparr>itemCache := (itemCache s')
                              (workItem \<mapsto> \<lparr> workitem = item, item_entry.time = now \<rparr>)\<rparr>, c))
              else (s, None))
      in (case itemCache s1 workItem of
            Some item \<Rightarrow> workitem item
          | None \<Rightarrow> None, s1, created))"


text \<open>The string built by \<^verbatim>\<open>getUrlFromWorkItem\<close> once the work item is there.\<close>

definition itemUrl :: "string \<Rightarrow> string \<Rightarrow> string \<Rightarrow> string" where
  "itemUrl url projectId itemId =
     (let baseUrl = (if \<not> endsWith url ''/'' then url @ ''/'' else url);
          baseUrl = (if endsWith baseUrl ''/polarion/'' then slice_end baseUrl 10 else baseUrl)
      in baseUrl @ ''polarion/#/project/'' @ projectId @ ''/workitem?id='' @ itemId)"

definition getUrlFromWorkItem ::
  "server \<Rightarrow> config \<Rightarrow> int \<Rightarrow> string \<Rightarrow> Polarion \<Rightarrow> string option \<times> Polarion \<times> Polarion option" where
  "getUrlFromWorkItem srv cfg now itemId s =
     (let (workItem, s1, created) = getWorkItem srv cfg now itemId s
      in case workItem of
           None \<Rightarrow> (None, s1, created)
         | Some w \<Rightarrow> (Some (itemUrl (polarionUrl s1) (project w) itemId), s1, created))"


text \<open>
  The method \<^verbatim>\<open>downloadAttachment\<close> of a work item, run on the session that built it.
\<close>

definition downloadAttachment ::
  "server \<Rightarrow> PolarionWorkItem \<Rightarrow> string \<Rightarrow> Polarion \<Rightarrow> string option \<times> Polarion" where
  "downloadAttachment srv w attachmentId s =
     downloadWorkitemAttachmentForProject srv (att_item w) attachmentId (att_project w) s"

subsection \<open>Requests of one call\<close>

text \<open>The work item query, as opposed to the requests of the enumerations and icons.\<close>

definition is_item_fetch :: "request \<Rightarrow> bool" where
  "is_item_fetch r = (path r = ''/polarion/rest/v1/all/workitems'' \<and> rtype r = Json)"

text \<open>
  What the enumeration resolvers and the icon download may change of a session: the
  status, type, user and icon caches, and the log of requests, to which they add no
  work item query.
\<close>

definition enum_step :: "Polarion \<Rightarrow> Polarion \<Rightarrow> bool" where
  "enum_step s s' =
     (initialized s' = initialized s \<and> itemCache s' = itemCache s \<and>
      attachmentCache s' = attachmentCache s \<and> exceptionCount s' = exceptionCount s \<and>
      polarionUrl s' = polarionUrl s \<and>
      (\<exists>xs. sent (httpClient s') = sent (httpClient s) @ xs \<and> (\<forall>r\<in>set xs. \<not> is_item_fetch r)))"

text \<open>
  A caller fetching several work items in turn from one session, up to the first fetch
  whose \<^verbatim>\<open>createPolarion\<close> replaces the session; the result is the session as the
  fetches left it and the replacement, if there is one.
\<close>

fun fetch_until_restart ::
  "server \<Rightarrow> config \<Rightarrow> int \<Rightarrow> string list \<Rightarrow> Polarion \<Rightarrow> Polarion \<times> Polarion option" where
  "fetch_until_restart srv cfg now [] s = (s, None)"
| "fetch_until_restart srv cfg now (itemId # rest) s =
     (case getWorkItemFromPolarion srv cfg now itemId s of
        (r, s1, Some created) \<Rightarrow> (s1, Some created)
      | (r, s1, None) \<Rightarrow> fetch_until_restart srv cfg now rest s1)"

text \<open>The errors that the \<^verbatim>\<open>catch\<close> block of \<^verbatim>\<open>getWorkItemFromPolarion\<close> counts.\<close>

definition counted :: "exn \<Rightarrow> bool" where
  "counted e = (response_status e \<noteq> Some 404 \<and> response_status e \<noteq> Some 401 \<and>
                response_status e \<noteq> Some 403)"

subsection \<open>Entries of a status mapping\<close>

text \<open>
  An entry of a status mapping that was made from an option of the response: the option
  has the entry's key as its id and a name, the entry has that name and the option's
  colour, or \<^verbatim>\<open>#000000\<close> where the option has none.
\<close>

definition entry_of :: "raw_option option list \<Rightarrow> string \<Rightarrow> status_info \<Rightarrow> bool" where
  "entry_of opts k si =
     (\<exists>opt. Some opt \<in> set opts \<and> o_id opt = Some k \<and> k \<noteq> [] \<and> truthy (o_name opt) \<and>
            status_info.name si = the (o_name opt) \<and>
            status_info.color si = jor_str (o_color opt) ''#000000'')"

subsection \<open>The sessions that the program produces\<close>




subsection \<open>A service, settings and sessions to evaluate the definitions on\<close>

definition network_error :: exn where
  "network_error = Exn ''AxiosError'' ''Network Error'' None"

text \<open>A service that cannot be reached, and one that only answers the connection test.\<close>

definition offline :: server where
  "offline =
     \<lparr> srv_projects = (\<lambda>n. Rejected network_error),
       srv_workitems = (\<lambda>n i. Rejected network_error),
       srv_statusOptions = (\<lambda>n p t. Rejected network_error),
       srv_typeOptions = (\<lambda>n p. Rejected network_error),
       srv_users = (\<lambda>n u. Rejected network_error),
       srv_content = (\<lambda>n u. Rejected network_error) \<rparr>"

definition reachable :: server where
  "reachable = offline\<lparr> srv_projects := (\<lambda>n. Response 200 ()) \<rparr>"

text \<open>A service whose status enumeration has an option without colour and one without id.\<close>

definition tracker :: server where
  "tracker =
     reachable\<lparr> srv_statusOptions := (\<lambda>n p t. Response 200 (Some
        [Some \<lparr> o_id = Some ''open'', o_name = Some ''Open'', o_color = None, o_iconURL = None \<rparr>,
         Some \<lparr> o_id = None, o_name = Some ''Orphan'', o_color = Some ''#FF0000'',
                o_iconURL = None \<rparr>])) \<rparr>"

text \<open>Settings with the URL the README gives as its example, basic authentication.\<close>

definition settings :: config where
  "settings =
     \<lparr> Url = Some ''http://polarion2020.example.com/polarion'',
       UseTokenAuth = Some False,
       Username = Some ''user'',
       Password = Some ''pass'',
       Token = Some ''tok'',
       RefreshTime = Some 5,
       ExceptionRestart = Some 1,
       fileConfig = None \<rparr>"

definition fresh :: Polarion where
  "fresh = new_Polarion ''http://polarion2020.example.com/polarion'' ''user'' ''pass'' False"

definition connected :: Polarion where
  "connected =
     fresh\<lparr> httpClient := \<lparr> baseURL = ''http://polarion2020.example.com/polarion'',
                             timeout = 30000,
                             common = [(''Authorization'', ''Basic dXNlcjpwYXNz'')],
                             sent = [Get ''/polarion/rest/v1/projects'' [] Json []] \<rparr>,
            initialized := True,
            authHeaders := [(''Authorization'', ''Basic dXNlcjpwYXNz'')],
            numberOfPopupsToShow := 1,
            lastMessage := Some ''Polarion REST API connection established'' \<rparr>"

definition example_item :: PolarionWorkItem where
  "example_item =
     \<lparr> PolarionWorkItem.id = Some ''ABC-1'',
       title = ''Fix bug'',
       type = \<lparr> item_type.id = ''task'', item_type.name = ''task'', item_type.iconPath = None \<rparr>,
       author = \<lparr> item_author.id = ''u1'', item_author.name = ''u1'',
                  item_author.email = None, item_author.initials = None \<rparr>,
       status = \<lparr> item_status.id = ''open'', item_status.name = ''open'',
                  item_status.color = None, item_status.iconPath = None \<rparr>,
       description = None,
       unresolvable = ''false'',
       project = ''P'',
       att_item = ''ABC-1'',
       att_project = ''P'' \<rparr>"

text \<open>A connected session with an entry in each of its caches, those with a time at time 0.\<close>

definition warm :: Polarion where
  "warm =
     connected\<lparr> itemCache := [''ABC-1'' \<mapsto> \<lparr> workitem = Some example_item, item_entry.time = 0 \<rparr>],
                attachmentCache := [''ABC-1:img1'' \<mapsto> ''aGVsbG8=''],
                statusCache := [''P:task'' \<mapsto>
                  \<lparr> statuses = [''open'' \<mapsto> \<lparr> status_info.name = ''Open'',
                                                 status_info.color = ''#00FF00'',
                                                 status_info.iconPath = None \<rparr>],
                     status_entry.time = 0 \<rparr>],
                workitemTypeCache := [''P'' \<mapsto>
                  \<lparr> types = [''task'' \<mapsto> \<lparr> type_info.name = ''Task'',
                                              type_info.iconPath = None \<rparr>],
                     type_entry.time = 0 \<rparr>],
                iconCache := [''/icons/open.gif'' \<mapsto> ''data:image/gif;base64,R0lG''],
                userCache := [''u1'' \<mapsto>
                  \<lparr> user = \<lparr> user_info.name = ''Ursula'', user_info.email = None,
                              user_info.initials = None \<rparr>,
                     user_entry.time = 0 \<rparr>] \<rparr>"

text \<open>The connected session after a failed resolution of \<^verbatim>\<open>ABC-1\<close> at time 1000.\<close>

definition after_miss :: Polarion where
  "after_miss = fst (snd (getWorkItem offline settings 1000 ''ABC-1'' connected))"

text \<open>Token authentication switched on, with a token of a no-break space and a space.\<close>

definition token_settings :: config where
  "token_settings =
     settings\<lparr> UseTokenAuth := Some True, Token := Some [CHR 0xC2, CHR 0xA0, CHR 0x20] \<rparr>"

definition token_session :: Polarion where
  "token_session = new_Polarion ''http://polarion2020.example.com/polarion'' [] [] True"

text \<open>The connected session after a fetch of the status enumeration of the tracker.\<close>

definition tracked :: Polarion where
  "tracked = fetchStatusMappingsFromPolarion tracker 0 ''P'' ''task'' connected"

text \<open>The session that \<^verbatim>\<open>createPolarion\<close> makes of the settings when the service is offline.\<close>

definition restarted :: Polarion where
  "restarted = initialize offline settings fresh"

section \<open>Properties\<close>

subsection \<open>What the enumeration resolvers leave unchanged\<close>

lemma enum_step_refl [simp]: "enum_step s s"
  by (simp add: enum_step_def)

lemma enum_step_trans: "enum_step s s1 \<Longrightarrow> enum_step s1 s2 \<Longrightarrow> enum_step s s2"
  unfolding enum_step_def by (elim conjE exE) (simp, blast)

lemma enum_step_issue:
  "\<not> is_item_fetch r \<Longrightarrow> enum_step s (issue r s)"
  by (simp add: enum_step_def issue_def)

lemma enum_step_statusCache [simp]: "enum_step s (s'\<lparr>statusCache := c\<rparr>) = enum_step s s'"
  by (simp add: enum_step_def)
lemma enum_step_typeCache [simp]: "enum_step s (s'\<lparr>workitemTypeCache := c\<rparr>) = enum_step s s'"
  by (simp add: enum_step_def)
lemma enum_step_userCache [simp]: "enum_step s (s'\<lparr>userCache := c\<rparr>) = enum_step s s'"
  by (simp add: enum_step_def)
lemma enum_step_iconCache [simp]: "enum_step s (s'\<lparr>iconCache := c\<rparr>) = enum_step s s'"
  by (simp add: enum_step_def)

lemma downloadStatusIcon_step: "enum_step s (snd (downloadStatusIcon srv u s))"
  by (auto simp: downloadStatusIcon_def Let_def is_item_fetch_def intro!: enum_step_issue
           split: option.splits outcome.splits)



lemma add_status_option_step: "add_status_option srv opt m s = (m1, s1) \<Longrightarrow> enum_step s s1"
  using downloadStatusIcon_step [of s srv "the (o_iconURL opt)"]
  by (auto simp: add_status_option_def split: prod.splits if_splits)

lemma process_status_options_step:
  "process_status_options srv opts m s = (r, s') \<Longrightarrow> enum_step s s'"
proof (induction opts arbitrary: m s)
  case Nil
  then show ?case by simp
next
  case (Cons a opts)
  show ?case
  proof (cases a)
    case None
    with Cons.prems show ?thesis by simp
  next
    case (Some opt)
    obtain m1 s1 where a: "add_status_option srv opt m s = (m1, s1)"
      by (cases "add_status_option srv opt m s")
    have "enum_step s s1" using a by (rule add_status_option_step)
    moreover have "enum_step s1 s'"
      using Cons.IH [where m = m1 and s = s1] Cons.prems Some a by simp
    ultimately show ?thesis by (rule enum_step_trans)
  qed
qed

lemma fetchStatusMappings_try_step:
  assumes "fetchStatusMappings_try srv now p t s = (r, s')"
  shows "enum_step s s'"
proof -
  define q where "q = Get (''/polarion/rest/v1/projects/'' @ p
                             @ ''/workitems/fields/status/actions/getAvailableOptions'')
                        [(''type'', t)] Json []"
  have nf: "\<not> is_item_fetch q" by (simp add: q_def is_item_fetch_def)
  have a: "enum_step s (issue q s)" using nf by (rule enum_step_issue)
  have b: "enum_step s s2" if "process_status_options srv opts Map.empty (issue q s) = (x, s2)"
    for opts x s2
    using a process_status_options_step [OF that] by (rule enum_step_trans)
  show ?thesis
    using assms a b unfolding fetchStatusMappings_try_def Let_def q_def [symmetric]
    by (auto split: outcome.splits option.splits prod.splits sum.splits if_splits)
qed

lemma fetchStatusMappings_step:
  "enum_step s (fetchStatusMappingsFromPolarion srv now p t s)"
  unfolding fetchStatusMappingsFromPolarion_def
  by (auto split: prod.splits sum.splits dest: fetchStatusMappings_try_step)

lemma getStatusMappings_step: "getStatusMappings srv cfg now p t s = (m, s') \<Longrightarrow> enum_step s s'"
  using fetchStatusMappings_step [of s srv now p t]
  by (auto simp: getStatusMappings_def Let_def split: option.splits if_splits)

lemma getStatusDisplayInfo_step:
  "getStatusDisplayInfo srv cfg now i p t s = (d, s') \<Longrightarrow> enum_step s s'"
  by (auto simp: getStatusDisplayInfo_def split: prod.splits option.splits
           dest: getStatusMappings_step)


lemma add_type_option_step: "add_type_option srv opt m s = (m1, s1) \<Longrightarrow> enum_step s s1"
  using downloadStatusIcon_step [of s srv "the (o_iconURL opt)"]
  by (auto simp: add_type_option_def downloadWorkitemTypeIcon_def split: prod.splits if_splits)

lemma process_type_options_step:
  "process_type_options srv opts m s = (r, s') \<Longrightarrow> enum_step s s'"
proof (induction opts arbitrary: m s)
  case Nil
  then show ?case by simp
next
  case (Cons a opts)
  show ?case
  proof (cases a)
    case None
    with Cons.prems show ?thesis by simp
  next
    case (Some opt)
    obtain m1 s1 where a: "add_type_option srv opt m s = (m1, s1)"
      by (cases "add_type_option srv opt m s")
    have "enum_step s s1" using a by (rule add_type_option_step)
    moreover have "enum_step s1 s'"
      using Cons.IH [where m = m1 and s = s1] Cons.prems Some a by simp
    ultimately show ?thesis by (rule enum_step_trans)
  qed
qed

lemma fetchWorkitemTypeMappings_try_step:
  assumes "fetchWorkitemTypeMappings_try srv now p s = (r, s')"
  shows "enum_step s s'"
proof -
  define q where "q = Get (''/polarion/rest/v1/projects/'' @ p
                             @ ''/enumerations/~/workitem-type/~'') [] Json []"
  have nf: "\<not> is_item_fetch q" by (simp add: q_def is_item_fetch_def)
  have a: "enum_step s (issue q s)" using nf by (rule enum_step_issue)
  have b: "enum_step s s2" if "process_type_options srv opts Map.empty (issue q s) = (x, s2)"
    for opts x s2
    using a process_type_options_step [OF that] by (rule enum_step_trans)
  show ?thesis
    using assms a b unfolding fetchWorkitemTypeMappings_try_def Let_def q_def [symmetric]
    by (auto split: outcome.splits option.splits prod.splits sum.splits if_splits)
qed

lemma fetchWorkitemTypeMappings_step:
  "enum_step s (fetchWorkitemTypeMappingsFromPolarion srv now p s)"
  unfolding fetchWorkitemTypeMappingsFromPolarion_def
  by (auto split: prod.splits sum.splits dest: fetchWorkitemTypeMappings_try_step)

lemma getWorkitemTypeDisplayInfo_step:
  "getWorkitemTypeDisplayInfo srv cfg now i p s = (d, s') \<Longrightarrow> enum_step s s'"
  using fetchWorkitemTypeMappings_step [of s srv now p]
  by (auto simp: getWorkitemTypeDisplayInfo_def getWorkitemTypeMappings_def Let_def
           split: prod.splits option.splits if_splits)

lemma fetchUser_step: "enum_step s (fetchUserFromPolarion srv now u s)"
proof -
  define q where "q = Get (''/polarion/rest/v1/users/'' @ u)
                        [(''fields[users]'', ''id,name,email,initials'')] Json []"
  have nf: "\<not> is_item_fetch q" by (simp add: q_def is_item_fetch_def)
  have a: "enum_step s (issue q s)" using nf by (rule enum_step_issue)
  show ?thesis
    using a unfolding fetchUserFromPolarion_def Let_def q_def [symmetric]
    by (auto split: outcome.splits option.splits)
qed

lemma getUserDisplayInfo_step:
  "getUserDisplayInfo srv cfg now u s = (d, s') \<Longrightarrow> enum_step s s'"
  using fetchUser_step [of s srv now u]
  by (auto simp: getUserDisplayInfo_def getUserInfo_def Let_def split: option.splits if_splits)

lemma hydrate_step: "hydrate srv cfg now i w s = (item, s') \<Longrightarrow> enum_step s s'"
  unfolding hydrate_def Let_def
  by (auto split: prod.splits
           dest!: getStatusDisplayInfo_step getWorkitemTypeDisplayInfo_step getUserDisplayInfo_step
           intro: enum_step_trans)

subsection \<open>Fetching and caching a work item\<close>

lemma not_item_fetch_not_query: "\<not> is_item_fetch r \<Longrightarrow> r \<noteq> item_query i"
  by (auto simp: is_item_fetch_def item_query_def)

lemma item_query_is_fetch [simp]: "is_item_fetch (item_query i)"
  by (simp add: is_item_fetch_def item_query_def)

lemma getWorkItemFromPolarion_try_step:
  assumes "getWorkItemFromPolarion_try srv cfg now i s = (r, s')"
  shows "enum_step (issue (item_query i) s) s'"
proof (cases "srv_workitems srv (sent_count s) i")
  case (Rejected e)
  with assms show ?thesis by (simp add: getWorkItemFromPolarion_try_def)
next
  case (Response st d)
  show ?thesis
  proof (cases "\<exists>w others. d = Some (Some w # others) \<and> st = 200")
    case True
    then obtain w others where d: "d = Some (Some w # others)" and st: "st = 200" by blast
    obtain item s2 where h: "hydrate srv cfg now i w (issue (item_query i) s) = (item, s2)"
      by (cases "hydrate srv cfg now i w (issue (item_query i) s)")
    have "s' = s2" using assms Response d st h by (simp add: getWorkItemFromPolarion_try_def)
    with hydrate_step [OF h] show ?thesis by simp
  next
    case False
    have "s' = issue (item_query i) s"
      using assms Response False
      by (cases d; cases "the d"; cases "hd (the d)")
         (simp_all add: getWorkItemFromPolarion_try_def Let_def split: if_splits)
    then show ?thesis by simp
  qed
qed

lemma issue_fields [simp]:
  "initialized (issue q s) = initialized s"
  "itemCache (issue q s) = itemCache s"
  "attachmentCache (issue q s) = attachmentCache s"
  "exceptionCount (issue q s) = exceptionCount s"
  "polarionUrl (issue q s) = polarionUrl s"
  "sent (httpClient (issue q s)) = sent (httpClient s) @ [q]"
  by (simp_all add: issue_def)

text \<open>What the \<^verbatim>\<open>catch\<close> block leaves of the state after the \<^verbatim>\<open>try\<close> block.\<close>

lemma getWorkItemFromPolarion_after_try:
  assumes "initialized s" and "getWorkItemFromPolarion srv cfg now i s = (r, s', c)"
    and t: "getWorkItemFromPolarion_try srv cfg now i s = (x, s2)"
  shows "initialized s' = initialized s2 \<and> itemCache s' = itemCache s2 \<and>
         polarionUrl s' = polarionUrl s2 \<and> attachmentCache s' = attachmentCache s2 \<and>
         httpClient s' = httpClient s2"
proof (cases x)
  case (Inr v)
  with assms show ?thesis by (simp add: getWorkItemFromPolarion_def)
next
  case (Inl e)
  with assms show ?thesis
    by (cases "ExceptionRestart cfg") (auto simp: getWorkItemFromPolarion_def split: if_splits)
qed


lemma getWorkItemFromPolarion_requests:
  assumes "initialized s" and "getWorkItemFromPolarion srv cfg now i s = (r, s', c)"
  shows "\<exists>xs. sent (httpClient s') = sent (httpClient s) @ item_query i # xs \<and>
              (\<forall>q\<in>set xs. \<not> is_item_fetch q)"
proof -
  obtain x s2 where t: "getWorkItemFromPolarion_try srv cfg now i s = (x, s2)"
    by (cases "getWorkItemFromPolarion_try srv cfg now i s")
  from getWorkItemFromPolarion_try_step [OF t] getWorkItemFromPolarion_after_try [OF assms t]
  show ?thesis by (auto simp: enum_step_def)
qed

text \<open>When no fetch is due, \<^verbatim>\<open>getWorkItem\<close> is a lookup.\<close>

lemma getWorkItem_no_fetch:
  assumes "\<not> (initialized s \<and> (case itemCache s i of None \<Rightarrow> True
                                   | Some item \<Rightarrow> stale cfg now (item_entry.time item)))"
  shows "getWorkItem srv cfg now i s =
           (case itemCache s i of Some item \<Rightarrow> workitem item | None \<Rightarrow> None, s, None)"
  using assms unfolding getWorkItem_def Let_def by (auto split: option.splits)

lemma getWorkItem_fetch:
  assumes "initialized s \<and> (case itemCache s i of None \<Rightarrow> True
                                   | Some item \<Rightarrow> stale cfg now (item_entry.time item))"
    and "getWorkItemFromPolarion srv cfg now i s = (r, s', c)"
  shows "getWorkItem srv cfg now i s =
           (r, s'\<lparr>itemCache := (itemCache s')(i \<mapsto> \<lparr> workitem = r, item_entry.time = now \<rparr>)\<rparr>, c)"
  using assms unfolding getWorkItem_def Let_def by simp


lemma fetch_rejected:
  assumes "srv_workitems srv (sent_count s) i = Rejected e"
  shows "fst (getWorkItemFromPolarion srv cfg now i s) = None"
  using assms
  by (cases "ExceptionRestart cfg")
     (simp_all add: getWorkItemFromPolarion_def getWorkItemFromPolarion_try_def)

lemma fetch_null_element:
  assumes "srv_workitems srv (sent_count s) i = Response st (Some (None # others))"
  shows "fst (getWorkItemFromPolarion srv cfg now i s) = None"
  using assms
  by (cases "ExceptionRestart cfg")
     (simp_all add: getWorkItemFromPolarion_def getWorkItemFromPolarion_try_def TypeError_def Let_def)

subsection \<open>The URL of an item that could not be resolved\<close>

text \<open>
  Claim C9. Whenever the resolution of an item id inside \<^verbatim>\<open>getUrlFromWorkItem\<close> gives no
  work item, \<^verbatim>\<open>getUrlFromWorkItem\<close> returns \<^verbatim>\<open>undefined\<close>: no URL is built for an item
  that could not be resolved.
\<close>

theorem url_absent_when_item_absent:
  "fst (getWorkItem srv cfg now i s) = None \<Longrightarrow> fst (getUrlFromWorkItem srv cfg now i s) = None"
  by (cases "getWorkItem srv cfg now i s") (simp add: getUrlFromWorkItem_def)

subsection \<open>A miss is cached, also when the fetch fails\<close>

text \<open>
  Claim C5. On an initialized session, when the item cache has no entry for the id (or a
  stale one), \<^verbatim>\<open>getWorkItem\<close> stores what the fetch returned under the id with the
  current time, whatever the fetch returned: in particular the absent result of a
  rejected request. The call sends exactly one work item query. A second
  \<^verbatim>\<open>getWorkItem\<close> for the same id on that session, at any time at which the entry is
  not stale, with any settings and any service, sends nothing, changes nothing and returns
  the stored value.
\<close>

theorem item_cached_after_miss:
  assumes "initialized s"
    and "case itemCache s i of None \<Rightarrow> True | Some item \<Rightarrow> stale cfg now (item_entry.time item)"
    and "getWorkItem srv cfg now i s = (r, s1, c)"
  shows "itemCache s1 i = Some \<lparr> workitem = r, item_entry.time = now \<rparr> \<and>
         filter is_item_fetch (drop (sent_count s) (sent (httpClient s1))) = [item_query i] \<and>
         (\<forall>e. srv_workitems srv (sent_count s) i = Rejected e \<longrightarrow> r = None) \<and>
         (\<forall>srv' cfg' now'. \<not> stale cfg' now' now \<longrightarrow>
            getWorkItem srv' cfg' now' i s1 = (r, s1, None))"
proof -
  obtain r' s' c' where f: "getWorkItemFromPolarion srv cfg now i s = (r', s', c')"
    by (cases "getWorkItemFromPolarion srv cfg now i s")
  from getWorkItem_fetch [OF conjI [OF assms(1) assms(2)] f] assms(3)
  have r: "r = r'"
    and s1: "s1 = s'\<lparr>itemCache := (itemCache s')(i \<mapsto> \<lparr> workitem = r', item_entry.time = now \<rparr>)\<rparr>"
    by simp_all
  have entry: "itemCache s1 i = Some \<lparr> workitem = r, item_entry.time = now \<rparr>"
    by (simp add: s1 r)
  from getWorkItemFromPolarion_requests [OF assms(1) f]
  obtain xs where xs: "sent (httpClient s') = sent (httpClient s) @ item_query i # xs"
    and nf: "\<forall>q\<in>set xs. \<not> is_item_fetch q" by blast
  have "filter is_item_fetch xs = []" using nf by (simp add: filter_empty_conv)
  then have one: "filter is_item_fetch (drop (sent_count s) (sent (httpClient s1))) = [item_query i]"
    by (simp add: s1 xs sent_count_def)
  have rej: "\<forall>e. srv_workitems srv (sent_count s) i = Rejected e \<longrightarrow> r = None"
    using fetch_rejected [where srv = srv and s = s and i = i and cfg = cfg and now = now] f r by auto
  have again: "getWorkItem srv' cfg' now' i s1 = (r, s1, None)" if "\<not> stale cfg' now' now"
    for srv' cfg' now'
    using getWorkItem_no_fetch [where s = s1 and i = i and cfg = cfg' and now = now' and srv = srv'] entry that by simp
  from entry one rej again show ?thesis by blast
qed

lemmas example_defs =
  connected_def fresh_def new_Polarion_def warm_def offline_def reachable_def
  network_error_def settings_def example_item_def

lemmas resolve_defs =
  getWorkItem_def getWorkItemFromPolarion_def getWorkItemFromPolarion_try_def Let_def
  issue_def sent_count_def stale_def

lemma after_miss_eval:
  "getWorkItem offline settings 1000 ''ABC-1'' connected = (None, after_miss, None)"
  unfolding after_miss_def by (simp add: resolve_defs example_defs)

theorem url_absent_when_item_absent_witness:
  "fst (getWorkItem offline settings 1000 ''ABC-1'' connected) = None \<and>
   fst (getUrlFromWorkItem offline settings 1000 ''ABC-1'' connected) = None"
  using url_absent_when_item_absent
          [where srv = offline and cfg = settings and now = 1000 and i = "''ABC-1''" and s = connected]
  by (simp add: after_miss_eval)

theorem item_cached_after_miss_witness:
  "initialized connected \<and> itemCache connected ''ABC-1'' = None \<and>
   getWorkItem offline settings 1000 ''ABC-1'' connected = (None, after_miss, None) \<and>
   itemCache after_miss ''ABC-1'' = Some \<lparr> workitem = None, item_entry.time = 1000 \<rparr> \<and>
   filter is_item_fetch (drop (sent_count connected) (sent (httpClient after_miss))) =
     [item_query ''ABC-1''] \<and>
   \<not> stale settings 2000 1000 \<and>
   getWorkItem reachable settings 2000 ''ABC-1'' after_miss = (None, after_miss, None)"
proof -
  have a: "initialized connected" by (simp add: example_defs)
  have b: "case itemCache connected ''ABC-1'' of None \<Rightarrow> True
           | Some item \<Rightarrow> stale settings 1000 (item_entry.time item)"
    by (simp add: example_defs)
  have b': "itemCache connected ''ABC-1'' = None" by (simp add: example_defs)
  have c: "\<not> stale settings 2000 1000" by (simp add: stale_def settings_def)
  note t = item_cached_after_miss [OF a b after_miss_eval]
  from t have e: "itemCache after_miss ''ABC-1'' = Some \<lparr> workitem = None, item_entry.time = 1000 \<rparr>"
    by (rule conjunct1)
  from t have f: "filter is_item_fetch (drop (sent_count connected) (sent (httpClient after_miss))) =
     [item_query ''ABC-1'']" by blast
  from t c have g: "getWorkItem reachable settings 2000 ''ABC-1'' after_miss = (None, after_miss, None)"
    by blast
  from a b' after_miss_eval e f c g show ?thesis by (intro conjI)
qed

subsection \<open>The URL of an item\<close>

text \<open>
  On a base URL without the segment, the path is appended after a slash. On a base URL
  that ends in \<^verbatim>\<open>/polarion/\<close>, the ten characters removed include the slash before
  the segment.
\<close>

lemma itemUrl_appends:
  "\<not> endsWith url ''/'' \<Longrightarrow> \<not> endsWith (url @ ''/'') ''/polarion/'' \<Longrightarrow>
     itemUrl url p i = url @ ''/polarion/#/project/'' @ p @ ''/workitem?id='' @ i"
  by (simp add: itemUrl_def)

lemma itemUrl_drops_separator:
  "itemUrl (h @ ''/polarion/'') p i = h @ ''polarion/#/project/'' @ p @ ''/workitem?id='' @ i"
  by (simp add: itemUrl_def endsWith_def slice_end_def)

text \<open>
  Claim C2, at the base URL that the README gives as its example, which ends in
  \<^verbatim>\<open>/polarion\<close>: \<^verbatim>\<open>slice(0, -10)\<close> removes the slash before \<^verbatim>\<open>polarion\<close> together
  with the segment, and the path is appended to the host name without a separator.
\<close>

theorem item_url_of_documented_base:
  "polarionUrl warm = ''http://polarion2020.example.com/polarion'' \<and>
   fst (getUrlFromWorkItem offline settings 0 ''ABC-1'' warm) =
     Some ''http://polarion2020.example.compolarion/#/project/P/workitem?id=ABC-1''"
  by (simp add: getUrlFromWorkItem_def itemUrl_def endsWith_def slice_end_def
        getWorkItem_def Let_def stale_def example_defs)

subsection \<open>Authentication\<close>

lemma report_fields [simp]:
  "httpClient (report m l p s) = httpClient s"
  "initialized (report m l p s) = initialized s"
  "authHeaders (report m l p s) = authHeaders s"
  "useTokenAuth (report m l p s) = useTokenAuth s"
  "polarionToken (report m l p s) = polarionToken s"
  "polarionUser (report m l p s) = polarionUser s"
  "polarionPassword (report m l p s) = polarionPassword s"
  "itemCache (report m l p s) = itemCache s"
  "attachmentCache (report m l p s) = attachmentCache s"
  "statusCache (report m l p s) = statusCache s"
  "workitemTypeCache (report m l p s) = workitemTypeCache s"
  "iconCache (report m l p s) = iconCache s"
  "userCache (report m l p s) = userCache s"
  "exceptionCount (report m l p s) = exceptionCount s"
  by (simp_all add: report_def)

lemma spread_single: "map_of (spread a [(k, v)]) k = Some v"
  by (simp add: spread_def update_conv')

lemma base64_user_pass: "base64 ''user:pass'' = ''dXNlcjpwYXNz''"
  by (simp add: b64_digit_def b64_alphabet_def)

text \<open>\<^verbatim>\<open>setupAuthentication\<close> with basic credentials and token authentication off.\<close>

lemma setupAuthentication_basic:
  assumes "\<not> useTokenAuth s" and "polarionUser s \<noteq> []" and "polarionPassword s \<noteq> []"
  shows "\<exists>s2. setupAuthentication s = Inr s2 \<and>
           authHeaders s2 = [(''Authorization'',
              ''Basic '' @ base64 (polarionUser s @ '':'' @ polarionPassword s))] \<and>
           map_of (common (httpClient s2)) ''Authorization'' =
              Some (''Basic '' @ base64 (polarionUser s @ '':'' @ polarionPassword s))"
  using assms by (simp add: setupAuthentication_def set_default_headers_def Let_def spread_single)

lemma testConnection_headers:
  "authHeaders (snd (testConnection srv s)) = authHeaders s \<and>
   common (httpClient (snd (testConnection srv s))) = common (httpClient s)"
  by (simp add: testConnection_def Let_def issue_def split: outcome.splits)

lemma initialize_headers:
  assumes "initialize_try srv cfg s = (x, s1)"
  shows "authHeaders (initialize srv cfg s) = authHeaders s1 \<and>
         httpClient (initialize srv cfg s) = httpClient s1"
  using assms by (cases x) (simp_all add: initialize_def)

text \<open>With token authentication on and no usable token, the \<^verbatim>\<open>try\<close> block throws
  before the connection test.\<close>

lemma initialize_try_no_token:
  assumes "useTokenAuth s" and "\<forall>t. Token cfg = Some t \<longrightarrow> trim t = []"
  shows "\<exists>s1. initialize_try srv cfg s =
                 (Inl (Error ''No valid authentication method configured''), s1) \<and>
              httpClient s1 = httpClient s"
  using assms
  by (cases "Token cfg")
     (auto simp: initialize_try_def retrieveTokenFromSettings_def setupAuthentication_def
                 truthy_def Let_def)

text \<open>
  Claim C7. With token authentication off and a user name and a password configured,
  \<^verbatim>\<open>initialize\<close> leaves the session with the header
  \<^verbatim>\<open>Authorization: Basic base64(user:pass)\<close>, as its own headers and as a default header
  of its client, whether or not a token is configured. With token authentication on and
  a token that is missing, empty or only white space, the \<^verbatim>\<open>try\<close> block of
  \<^verbatim>\<open>initialize\<close> throws the configuration error of \<^verbatim>\<open>setupAuthentication\<close>, no request
  is sent, and the session is left with \<^verbatim>\<open>initialized = false\<close>.
\<close>

theorem auth_precedence:
  "(\<not> useTokenAuth s \<and> polarionUser s \<noteq> [] \<and> polarionPassword s \<noteq> [] \<longrightarrow>
      authHeaders (initialize srv cfg s) =
        [(''Authorization'', ''Basic '' @ base64 (polarionUser s @ '':'' @ polarionPassword s))] \<and>
      map_of (common (httpClient (initialize srv cfg s))) ''Authorization'' =
        Some (''Basic '' @ base64 (polarionUser s @ '':'' @ polarionPassword s)))
   \<and> (useTokenAuth s \<and> (\<forall>t. Token cfg = Some t \<longrightarrow> trim t = []) \<longrightarrow>
      fst (initialize_try srv cfg s) = Inl (Error ''No valid authentication method configured'') \<and>
      initialized (initialize srv cfg s) = False \<and>
      sent (httpClient (initialize srv cfg s)) = sent (httpClient s))"
proof (intro conjI impI)
  assume a: "\<not> useTokenAuth s \<and> polarionUser s \<noteq> [] \<and> polarionPassword s \<noteq> []"
  then obtain s2 where s2: "setupAuthentication s = Inr s2"
    and h: "authHeaders s2 = [(''Authorization'',
              ''Basic '' @ base64 (polarionUser s @ '':'' @ polarionPassword s))]"
    and c: "map_of (common (httpClient s2)) ''Authorization'' =
              Some (''Basic '' @ base64 (polarionUser s @ '':'' @ polarionPassword s))"
    using setupAuthentication_basic [of s] by blast
  have t: "initialize_try srv cfg s = testConnection srv s2"
    using a s2 by (simp add: initialize_try_def)
  obtain x s3 where x: "testConnection srv s2 = (x, s3)" by (cases "testConnection srv s2")
  from initialize_headers [of srv cfg s x s3] t x testConnection_headers [of srv s2] h c
  show "authHeaders (initialize srv cfg s) =
        [(''Authorization'', ''Basic '' @ base64 (polarionUser s @ '':'' @ polarionPassword s))]"
    and "map_of (common (httpClient (initialize srv cfg s))) ''Authorization'' =
        Some (''Basic '' @ base64 (polarionUser s @ '':'' @ polarionPassword s))"
    by simp_all
next
  assume b: "useTokenAuth s \<and> (\<forall>t. Token cfg = Some t \<longrightarrow> trim t = [])"
  then obtain s1 where t: "initialize_try srv cfg s =
                 (Inl (Error ''No valid authentication method configured''), s1)"
    and h: "httpClient s1 = httpClient s"
    using initialize_try_no_token [of s cfg srv] by blast
  show "fst (initialize_try srv cfg s) = Inl (Error ''No valid authentication method configured'')"
    by (simp add: t)
  show "initialized (initialize srv cfg s) = False"
    by (simp add: initialize_def t)
  show "sent (httpClient (initialize srv cfg s)) = sent (httpClient s)"
    by (simp add: initialize_def t h)
qed

theorem auth_precedence_witness:
  "Token settings = Some ''tok'' \<and>
   authHeaders (initialize offline settings fresh) = [(''Authorization'', ''Basic dXNlcjpwYXNz'')] \<and>
   map_of (common (httpClient (initialize offline settings fresh))) ''Authorization'' =
     Some ''Basic dXNlcjpwYXNz'' \<and>
   Token token_settings = Some [CHR 0xC2, CHR 0xA0, CHR 0x20] \<and>
   initialized (initialize reachable token_settings token_session) = False \<and>
   sent (httpClient (initialize reachable token_settings token_session)) = []"
proof -
  have a: "\<not> useTokenAuth fresh \<and> polarionUser fresh = ''user'' \<and> polarionPassword fresh = ''pass''"
    by (simp add: fresh_def new_Polarion_def)
  have tr: "trim [CHR 0xC2, CHR 0xA0, CHR 0x20] = []"
    by (simp add: trim_def trimStart_def trimEnd_def strip.simps leading_def white_space_def)
  have b: "useTokenAuth token_session \<and> (\<forall>t. Token token_settings = Some t \<longrightarrow> trim t = [])"
    by (simp add: token_session_def new_Polarion_def token_settings_def settings_def tr)
  have c: "sent (httpClient token_session) = []"
    by (simp add: token_session_def new_Polarion_def)
  have d: "Token settings = Some ''tok''"
    "Token token_settings = Some [CHR 0xC2, CHR 0xA0, CHR 0x20]"
    by (simp_all add: token_settings_def settings_def)
  from auth_precedence [where s = fresh and srv = offline and cfg = settings] a
    auth_precedence [where s = token_session and srv = reachable and cfg = token_settings] b c d
  show ?thesis by (simp add: b64_digit_def b64_alphabet_def)
qed

subsection \<open>Failures of the transport\<close>

text \<open>
  Claim C8. The resolver operations return their results as plain values: an exception
  exists only inside a \<^verbatim>\<open>try\<close> block of the embedding. Whatever error a request is
  rejected with (any status, or none for a network error), and also when the response
  cannot be processed because its first element is \<^verbatim>\<open>null\<close>, a \<^verbatim>\<open>getWorkItem\<close> that
  fetches returns absent; a rejected attachment download returns \<^verbatim>\<open>null\<close> and a
  rejected icon download returns absent.
\<close>

theorem failures_degrade:
  "(initialized s \<and>
      (case itemCache s i of None \<Rightarrow> True | Some item \<Rightarrow> stale cfg now (item_entry.time item)) \<and>
      (srv_workitems srv (sent_count s) i = Rejected e \<or>
       srv_workitems srv (sent_count s) i = Response st (Some (None # others)))
      \<longrightarrow> fst (getWorkItem srv cfg now i s) = None)
   \<and> (attachmentCache s (w @ '':'' @ a) = None \<and>
        srv_content srv (sent_count s)
          (''/polarion/rest/v1/projects/'' @ p @ ''/workitems/'' @ w @ ''/attachments/'' @ a
             @ ''/content'') = Rejected e
      \<longrightarrow> fst (downloadWorkitemAttachmentForProject srv w a p s) = None)
   \<and> (iconCache s u = None \<and> srv_content srv (sent_count s) u = Rejected e
      \<longrightarrow> fst (downloadStatusIcon srv u s) = None)"
proof (intro conjI impI)
  assume h: "initialized s \<and>
      (case itemCache s i of None \<Rightarrow> True | Some item \<Rightarrow> stale cfg now (item_entry.time item)) \<and>
      (srv_workitems srv (sent_count s) i = Rejected e \<or>
       srv_workitems srv (sent_count s) i = Response st (Some (None # others)))"
  obtain r s' c where f: "getWorkItemFromPolarion srv cfg now i s = (r, s', c)"
    by (cases "getWorkItemFromPolarion srv cfg now i s")
  have "fst (getWorkItemFromPolarion srv cfg now i s) = None"
    using h fetch_rejected [where srv = srv and s = s and i = i and cfg = cfg and now = now]
      fetch_null_element [where srv = srv and s = s and i = i and cfg = cfg and now = now]
    by blast
  with f have "r = None" by simp
  moreover from h have "initialized s \<and>
      (case itemCache s i of None \<Rightarrow> True | Some item \<Rightarrow> stale cfg now (item_entry.time item))"
    by simp
  from getWorkItem_fetch [OF this f] have "fst (getWorkItem srv cfg now i s) = r" by simp
  ultimately show "fst (getWorkItem srv cfg now i s) = None" by simp
next
  assume "attachmentCache s (w @ '':'' @ a) = None \<and>
        srv_content srv (sent_count s)
          (''/polarion/rest/v1/projects/'' @ p @ ''/workitems/'' @ w @ ''/attachments/'' @ a
             @ ''/content'') = Rejected e"
  then show "fst (downloadWorkitemAttachmentForProject srv w a p s) = None"
    by (simp add: downloadWorkitemAttachmentForProject_def Let_def)
next
  assume "iconCache s u = None \<and> srv_content srv (sent_count s) u = Rejected e"
  then show "fst (downloadStatusIcon srv u s) = None"
    by (simp add: downloadStatusIcon_def Let_def)
qed

theorem failures_degrade_witness:
  "fst (getWorkItem offline settings 1000 ''ABC-1'' connected) = None \<and>
   fst (downloadWorkitemAttachmentForProject offline ''ABC-1'' ''img1'' ''P'' connected) = None \<and>
   fst (downloadStatusIcon offline ''/icons/open.gif'' connected) = None"
proof -
  have a: "initialized connected \<and>
      (case itemCache connected ''ABC-1'' of None \<Rightarrow> True
       | Some item \<Rightarrow> stale settings 1000 (item_entry.time item)) \<and>
      (srv_workitems offline (sent_count connected) ''ABC-1'' = Rejected network_error \<or>
       srv_workitems offline (sent_count connected) ''ABC-1'' = Response 200 (Some (None # [])))"
    by (simp add: example_defs)
  have b: "attachmentCache connected (''ABC-1'' @ '':'' @ ''img1'') = None \<and>
        srv_content offline (sent_count connected)
          (''/polarion/rest/v1/projects/'' @ ''P'' @ ''/workitems/'' @ ''ABC-1'' @ ''/attachments/''
             @ ''img1'' @ ''/content'') = Rejected network_error"
    by (simp add: example_defs)
  have c: "iconCache connected ''/icons/open.gif'' = None \<and>
       srv_content offline (sent_count connected) ''/icons/open.gif'' = Rejected network_error"
    by (simp add: example_defs)
  note t = failures_degrade [where s = connected and srv = offline and cfg = settings
      and now = 1000 and i = "''ABC-1''" and e = network_error and st = 200 and others = "[]"
      and w = "''ABC-1''" and a = "''img1''" and p = "''P''" and u = "''/icons/open.gif''"]
  from t a have "fst (getWorkItem offline settings 1000 ''ABC-1'' connected) = None" by blast
  moreover from t b
  have "fst (downloadWorkitemAttachmentForProject offline ''ABC-1'' ''img1'' ''P'' connected) = None"
    by blast
  moreover from t c have "fst (downloadStatusIcon offline ''/icons/open.gif'' connected) = None"
    by blast
  ultimately show ?thesis by (intro conjI)
qed

subsection \<open>Identifiers without display information\<close>

text \<open>
  Claim C6. When the status mapping resolved for a project and type has no entry for a
  status id, \<^verbatim>\<open>getStatusDisplayInfo\<close> returns the record with the id as name and nothing
  else; likewise \<^verbatim>\<open>getWorkitemTypeDisplayInfo\<close> for a type id without entry in the
  type mapping of the project, and \<^verbatim>\<open>getUserDisplayInfo\<close> for a user id for which the
  user cache has no entry after the lookup, or whose lookup is rejected or answered
  without data, or on a session that is not initialized.
\<close>

theorem fallback_identity:
  "(fst (getStatusMappings srv cfg now p t s) sid = None \<longrightarrow>
      fst (getStatusDisplayInfo srv cfg now sid p t s) =
        \<lparr> status_display.name = sid, status_display.color = None,
           status_display.iconPath = None \<rparr>)
   \<and> (fst (getWorkitemTypeMappings srv cfg now p s) tid = None \<longrightarrow>
      fst (getWorkitemTypeDisplayInfo srv cfg now tid p s) =
        \<lparr> type_info.name = tid, type_info.iconPath = None \<rparr>)
   \<and> (userCache (snd (getUserInfo srv cfg now u s)) u = None \<longrightarrow>
      fst (getUserDisplayInfo srv cfg now u s) = name_only u)
   \<and> ((\<not> initialized s \<or>
        (case userCache s u of None \<Rightarrow> True
         | Some cachedData \<Rightarrow> stale cfg now (user_entry.time cachedData)) \<and>
        (srv_users srv (sent_count s) u = Rejected e \<or>
         srv_users srv (sent_count s) u = Response st None)) \<longrightarrow>
      fst (getUserDisplayInfo srv cfg now u s) = name_only u)"
proof (intro conjI impI)
  assume "fst (getStatusMappings srv cfg now p t s) sid = None"
  then show "fst (getStatusDisplayInfo srv cfg now sid p t s) =
        \<lparr> status_display.name = sid, status_display.color = None,
           status_display.iconPath = None \<rparr>"
    by (cases "getStatusMappings srv cfg now p t s") (simp add: getStatusDisplayInfo_def)
next
  assume "fst (getWorkitemTypeMappings srv cfg now p s) tid = None"
  then show "fst (getWorkitemTypeDisplayInfo srv cfg now tid p s) =
        \<lparr> type_info.name = tid, type_info.iconPath = None \<rparr>"
    by (cases "getWorkitemTypeMappings srv cfg now p s") (simp add: getWorkitemTypeDisplayInfo_def)
next
  assume "userCache (snd (getUserInfo srv cfg now u s)) u = None"
  then show "fst (getUserDisplayInfo srv cfg now u s) = name_only u"
    by (simp add: getUserDisplayInfo_def getUserInfo_def Let_def split: if_splits option.splits)
next
  assume "\<not> initialized s \<or>
        (case userCache s u of None \<Rightarrow> True
         | Some cachedData \<Rightarrow> stale cfg now (user_entry.time cachedData)) \<and>
        (srv_users srv (sent_count s) u = Rejected e \<or>
         srv_users srv (sent_count s) u = Response st None)"
  then show "fst (getUserDisplayInfo srv cfg now u s) = name_only u"
    by (auto simp: getUserDisplayInfo_def getUserInfo_def fetchUserFromPolarion_def Let_def
             split: option.splits)
qed

lemmas enum_defs =
  getStatusDisplayInfo_def getStatusMappings_def fetchStatusMappingsFromPolarion_def
  fetchStatusMappings_try_def add_status_option_def
  getWorkitemTypeDisplayInfo_def getWorkitemTypeMappings_def
  fetchWorkitemTypeMappingsFromPolarion_def fetchWorkitemTypeMappings_try_def add_type_option_def
  getUserDisplayInfo_def getUserInfo_def fetchUserFromPolarion_def name_only_def
  truthy_def jor_str_def tracker_def

theorem fallback_identity_witness:
  "fst (getStatusMappings tracker settings 0 ''P'' ''task'' connected) ''closed'' = None \<and>
   fst (getStatusDisplayInfo tracker settings 0 ''closed'' ''P'' ''task'' connected) =
     \<lparr> status_display.name = ''closed'', status_display.color = None,
        status_display.iconPath = None \<rparr> \<and>
   fst (getWorkitemTypeMappings tracker settings 0 ''P'' connected) ''task'' = None \<and>
   fst (getWorkitemTypeDisplayInfo tracker settings 0 ''task'' ''P'' connected) =
     \<lparr> type_info.name = ''task'', type_info.iconPath = None \<rparr> \<and>
   userCache (snd (getUserInfo tracker settings 0 ''u1'' fresh)) ''u1'' = None \<and>
   fst (getUserDisplayInfo tracker settings 0 ''u1'' fresh) = name_only ''u1'' \<and>
   fst (getUserDisplayInfo tracker settings 0 ''u1'' connected) = name_only ''u1''"
proof -
  have a: "fst (getStatusMappings tracker settings 0 ''P'' ''task'' connected) ''closed'' = None"
    by (simp add: enum_defs example_defs resolve_defs)
  have b: "fst (getWorkitemTypeMappings tracker settings 0 ''P'' connected) ''task'' = None"
    by (simp add: enum_defs example_defs resolve_defs)
  have c: "userCache (snd (getUserInfo tracker settings 0 ''u1'' fresh)) ''u1'' = None"
    by (simp add: enum_defs example_defs resolve_defs)
  have d: "\<not> initialized connected \<or>
        (case userCache connected ''u1'' of None \<Rightarrow> True
         | Some cachedData \<Rightarrow> stale settings 0 (user_entry.time cachedData)) \<and>
        (srv_users tracker (sent_count connected) ''u1'' = Rejected network_error \<or>
         srv_users tracker (sent_count connected) ''u1'' = Response 200 None)"
    by (simp add: example_defs tracker_def)
  note t1 = fallback_identity [where srv = tracker and cfg = settings and now = 0
      and p = "''P''" and t = "''task''" and s = connected and sid = "''closed''"
      and tid = "''task''" and u = "''u1''" and e = network_error and st = 200]
  note t2 = fallback_identity [where srv = tracker and cfg = settings and now = 0
      and s = fresh and u = "''u1''"]
  from t1 a have a': "fst (getStatusDisplayInfo tracker settings 0 ''closed'' ''P'' ''task'' connected) =
     \<lparr> status_display.name = ''closed'', status_display.color = None,
        status_display.iconPath = None \<rparr>" by blast
  from t1 b have b': "fst (getWorkitemTypeDisplayInfo tracker settings 0 ''task'' ''P'' connected) =
     \<lparr> type_info.name = ''task'', type_info.iconPath = None \<rparr>" by blast
  from t2 c have c': "fst (getUserDisplayInfo tracker settings 0 ''u1'' fresh) = name_only ''u1''"
    by blast
  from t1 d have d': "fst (getUserDisplayInfo tracker settings 0 ''u1'' connected) = name_only ''u1''"
    by blast
  from a a' b b' c c' d' show ?thesis by (intro conjI)
qed

subsection \<open>The status mapping built from a response\<close>

lemma jor_str_nonempty: "d \<noteq> [] \<Longrightarrow> jor_str a d \<noteq> []"
  by (simp add: jor_str_def split: option.splits)

lemma entry_of_Cons: "entry_of opts k si \<Longrightarrow> entry_of (x # opts) k si"
  by (auto simp: entry_of_def)

lemma add_status_option_map:
  assumes "add_status_option srv opt m s = (m1, s1)"
  shows "if truthy (o_id opt) \<and> truthy (o_name opt)
         then \<exists>ic. m1 = m(the (o_id opt) \<mapsto>
                \<lparr> status_info.name = the (o_name opt),
                   status_info.color = jor_str (o_color opt) ''#000000'',
                   status_info.iconPath = ic \<rparr>)
         else m1 = m"
  using assms by (auto simp: add_status_option_def split: if_splits prod.splits)

lemma add_status_option_entries:
  assumes a: "add_status_option srv opt m s = (m1, s1)" and k: "m1 k = Some si"
  shows "m k = Some si \<or> entry_of (Some opt # rest) k si"
proof (cases "truthy (o_id opt) \<and> truthy (o_name opt)")
  case False
  with add_status_option_map [OF a] k show ?thesis by simp
next
  case True
  with add_status_option_map [OF a] obtain ic where
    m1: "m1 = m(the (o_id opt) \<mapsto>
                \<lparr> status_info.name = the (o_name opt),
                   status_info.color = jor_str (o_color opt) ''#000000'',
                   status_info.iconPath = ic \<rparr>)" by auto
  show ?thesis
  proof (cases "k = the (o_id opt)")
    case False
    with m1 k show ?thesis by simp
  next
    case eq: True
    from True have id: "o_id opt = Some k" "k \<noteq> []"
      using eq by (auto simp: truthy_def split: option.splits)
    from m1 k eq have "si = \<lparr> status_info.name = the (o_name opt),
                   status_info.color = jor_str (o_color opt) ''#000000'',
                   status_info.iconPath = ic \<rparr>" by simp
    then have "entry_of (Some opt # rest) k si"
      unfolding entry_of_def using id True by (intro exI [of _ opt]) simp
    then show ?thesis ..
  qed
qed

lemma add_status_option_dom:
  assumes a: "add_status_option srv opt m s = (m1, s1)"
  shows "dom m1 = dom m \<union> {k. o_id opt = Some k \<and> k \<noteq> [] \<and> truthy (o_name opt)}"
proof (cases "truthy (o_id opt) \<and> truthy (o_name opt)")
  case False
  with add_status_option_map [OF a] show ?thesis
    by (auto simp: truthy_def split: option.splits)
next
  case True
  with add_status_option_map [OF a] obtain ic where
    m1: "m1 = m(the (o_id opt) \<mapsto>
                \<lparr> status_info.name = the (o_name opt),
                   status_info.color = jor_str (o_color opt) ''#000000'',
                   status_info.iconPath = ic \<rparr>)" by auto
  from True show ?thesis unfolding m1
    by (auto simp: truthy_def split: option.splits)
qed

lemma process_status_options_entries:
  "process_status_options srv opts m s = (Inr m', s') \<Longrightarrow> m' k = Some si \<Longrightarrow>
     m k = Some si \<or> entry_of opts k si"
proof (induction opts arbitrary: m s)
  case Nil
  then show ?case by simp
next
  case (Cons x opts)
  show ?case
  proof (cases x)
    case None
    with Cons.prems show ?thesis by simp
  next
    case (Some opt)
    obtain m1 s1 where a: "add_status_option srv opt m s = (m1, s1)"
      by (cases "add_status_option srv opt m s")
    have "process_status_options srv opts m1 s1 = (Inr m', s')"
      using Cons.prems(1) Some a by simp
    from Cons.IH [OF this Cons.prems(2)]
    have "m1 k = Some si \<or> entry_of opts k si" .
    then show ?thesis
    proof
      assume "m1 k = Some si"
      from add_status_option_entries [OF a this, of opts] Some show ?thesis by simp
    next
      assume "entry_of opts k si"
      then show ?thesis by (simp add: entry_of_Cons)
    qed
  qed
qed

lemma process_status_options_dom:
  "process_status_options srv opts m s = (Inr m', s') \<Longrightarrow>
     dom m' = dom m \<union> {k. \<exists>opt. Some opt \<in> set opts \<and> o_id opt = Some k \<and> k \<noteq> [] \<and>
                                  truthy (o_name opt)}"
proof (induction opts arbitrary: m s)
  case Nil
  then show ?case by simp
next
  case (Cons x opts)
  show ?case
  proof (cases x)
    case None
    with Cons.prems show ?thesis by simp
  next
    case (Some opt)
    obtain m1 s1 where a: "add_status_option srv opt m s = (m1, s1)"
      by (cases "add_status_option srv opt m s")
    have "process_status_options srv opts m1 s1 = (Inr m', s')"
      using Cons.prems(1) Some a by simp
    from Cons.IH [OF this] add_status_option_dom [OF a] Some
    show ?thesis by auto
  qed
qed

lemma process_status_options_succeeds:
  "None \<notin> set opts \<Longrightarrow> \<exists>m' s'. process_status_options srv opts m s = (Inr m', s')"
proof (induction opts arbitrary: m s)
  case Nil
  then show ?case by simp
next
  case (Cons x opts)
  then obtain opt where x: "x = Some opt" by (cases x) auto
  obtain m1 s1 where a: "add_status_option srv opt m s = (m1, s1)"
    by (cases "add_status_option srv opt m s")
  from Cons.IH [of m1 s1] Cons.prems x a show ?case by simp
qed

lemma fetchStatusMappings_cached:
  assumes r: "srv_statusOptions srv (sent_count s) p t = Response 200 (Some opts)"
  shows "\<exists>m. statusCache (fetchStatusMappingsFromPolarion srv now p t s) (p @ '':'' @ t) =
               Some \<lparr> statuses = m, status_entry.time = now \<rparr> \<and>
             (\<forall>k si. m k = Some si \<longrightarrow> entry_of opts k si) \<and>
             (None \<notin> set opts \<longrightarrow>
                dom m = {k. \<exists>opt. Some opt \<in> set opts \<and> o_id opt = Some k \<and> k \<noteq> [] \<and>
                                  truthy (o_name opt)})"
proof -
  define q where "q = Get (''/polarion/rest/v1/projects/'' @ p
                             @ ''/workitems/fields/status/actions/getAvailableOptions'')
                        [(''type'', t)] Json []"
  obtain x s2 where pr: "process_status_options srv opts Map.empty (issue q s) = (x, s2)"
    by (cases "process_status_options srv opts Map.empty (issue q s)")
  show ?thesis
  proof (cases x)
    case (Inl e)
    have "statusCache (fetchStatusMappingsFromPolarion srv now p t s) (p @ '':'' @ t) =
               Some \<lparr> statuses = Map.empty, status_entry.time = now \<rparr>"
      using r pr Inl
      unfolding fetchStatusMappingsFromPolarion_def fetchStatusMappings_try_def Let_def
        q_def [symmetric]
      by simp
    moreover have "None \<in> set opts"
      using process_status_options_succeeds [of opts srv Map.empty "issue q s"] pr Inl by auto
    ultimately show ?thesis by blast
  next
    case (Inr m)
    have "statusCache (fetchStatusMappingsFromPolarion srv now p t s) (p @ '':'' @ t) =
               Some \<lparr> statuses = m, status_entry.time = now \<rparr>"
      using r pr Inr
      unfolding fetchStatusMappingsFromPolarion_def fetchStatusMappings_try_def Let_def
        q_def [symmetric]
      by simp
    moreover from pr Inr
    have E: "process_status_options srv opts Map.empty (issue q s) = (Inr m, s2)" by simp
    have "entry_of opts k si" if "m k = Some si" for k si
      using process_status_options_entries [OF E that] by simp
    then have "\<forall>k si. m k = Some si \<longrightarrow> entry_of opts k si" by blast
    moreover have "dom m = {k. \<exists>opt. Some opt \<in> set opts \<and> o_id opt = Some k \<and> k \<noteq> [] \<and>
                                  truthy (o_name opt)}"
      using process_status_options_dom [OF E] by simp
    ultimately show ?thesis by blast
  qed
qed

text \<open>
  Claim C10. When the status enumeration is answered with status 200 and a list of
  options, \<^verbatim>\<open>fetchStatusMappingsFromPolarion\<close> stores a mapping under the key of the
  project and type, with the current time. Every entry of that mapping has a colour that
  is not empty, and comes from an option of the response that has the entry's key as its
  id and a name: the entry has that name, and the option's colour, or \<^verbatim>\<open>#000000\<close>
  where the option has none. When no option is \<^verbatim>\<open>null\<close>, the keys of the mapping are
  exactly the ids of the options that have both an id and a name; an option without id
  or without name adds nothing.
\<close>

theorem status_mapping_entries:
  assumes "srv_statusOptions srv (sent_count s) p t = Response 200 (Some opts)"
  shows "\<exists>m. statusCache (fetchStatusMappingsFromPolarion srv now p t s) (p @ '':'' @ t) =
               Some \<lparr> statuses = m, status_entry.time = now \<rparr> \<and>
             (\<forall>k si. m k = Some si \<longrightarrow>
                status_info.color si \<noteq> [] \<and>
                (\<exists>opt. Some opt \<in> set opts \<and> o_id opt = Some k \<and> k \<noteq> [] \<and>
                       truthy (o_name opt) \<and>
                       status_info.name si = the (o_name opt) \<and>
                       status_info.color si =
                         (if truthy (o_color opt) then the (o_color opt) else ''#000000''))) \<and>
             (None \<notin> set opts \<longrightarrow>
                dom m = {k. \<exists>opt. Some opt \<in> set opts \<and> o_id opt = Some k \<and> k \<noteq> [] \<and>
                                  truthy (o_name opt)})"
proof -
  from fetchStatusMappings_cached [OF assms, of now] obtain m where
    c: "statusCache (fetchStatusMappingsFromPolarion srv now p t s) (p @ '':'' @ t) =
               Some \<lparr> statuses = m, status_entry.time = now \<rparr>"
    and e: "\<forall>k si. m k = Some si \<longrightarrow> entry_of opts k si"
    and d: "None \<notin> set opts \<longrightarrow>
                dom m = {k. \<exists>opt. Some opt \<in> set opts \<and> o_id opt = Some k \<and> k \<noteq> [] \<and>
                                  truthy (o_name opt)}"
    by blast
  have j: "jor_str a ''#000000'' = (if truthy a then the a else ''#000000'')" for a
    by (simp add: jor_str_def truthy_def split: option.splits)
  have "status_info.color si \<noteq> [] \<and>
                (\<exists>opt. Some opt \<in> set opts \<and> o_id opt = Some k \<and> k \<noteq> [] \<and>
                       truthy (o_name opt) \<and>
                       status_info.name si = the (o_name opt) \<and>
                       status_info.color si =
                         (if truthy (o_color opt) then the (o_color opt) else ''#000000''))"
    if "m k = Some si" for k si
  proof -
    from e that have "entry_of opts k si" by blast
    then obtain opt where o: "Some opt \<in> set opts" "o_id opt = Some k" "k \<noteq> []"
      "truthy (o_name opt)" "status_info.name si = the (o_name opt)"
      "status_info.color si = jor_str (o_color opt) ''#000000''"
      unfolding entry_of_def by blast
    from o(6) have ne: "status_info.color si \<noteq> []" by (simp add: jor_str_nonempty)
    from o(6) have col: "status_info.color si =
                         (if truthy (o_color opt) then the (o_color opt) else ''#000000'')"
      by (simp only: j)
    from o(1-5) col
    have "\<exists>opt. Some opt \<in> set opts \<and> o_id opt = Some k \<and> k \<noteq> [] \<and>
                       truthy (o_name opt) \<and>
                       status_info.name si = the (o_name opt) \<and>
                       status_info.color si =
                         (if truthy (o_color opt) then the (o_color opt) else ''#000000'')"
      by (intro exI [of _ opt] conjI)
    with ne show ?thesis ..
  qed
  then have "\<forall>k si. m k = Some si \<longrightarrow>
                status_info.color si \<noteq> [] \<and>
                (\<exists>opt. Some opt \<in> set opts \<and> o_id opt = Some k \<and> k \<noteq> [] \<and>
                       truthy (o_name opt) \<and>
                       status_info.name si = the (o_name opt) \<and>
                       status_info.color si =
                         (if truthy (o_color opt) then the (o_color opt) else ''#000000''))"
    by (intro allI impI)
  with c d show ?thesis by (intro exI [of _ m] conjI)
qed


lemma tracked_eval:
  "statusCache tracked ''P:task'' =
     Some \<lparr> statuses = [''open'' \<mapsto> \<lparr> status_info.name = ''Open'', status_info.color = ''#000000'',
                                       status_info.iconPath = None \<rparr>],
            status_entry.time = 0 \<rparr>"
  unfolding tracked_def by (simp add: enum_defs example_defs resolve_defs)

theorem status_mapping_entries_witness:
  "srv_statusOptions tracker (sent_count connected) ''P'' ''task'' =
     Response 200 (Some
        [Some \<lparr> o_id = Some ''open'', o_name = Some ''Open'', o_color = None, o_iconURL = None \<rparr>,
         Some \<lparr> o_id = None, o_name = Some ''Orphan'', o_color = Some ''#FF0000'',
                o_iconURL = None \<rparr>]) \<and>
   statuses (the (statusCache tracked ''P:task'')) ''open'' =
     Some \<lparr> status_info.name = ''Open'', status_info.color = ''#000000'',
            status_info.iconPath = None \<rparr> \<and>
   dom (statuses (the (statusCache tracked ''P:task''))) = {''open''}"
proof -
  let ?opts = "[Some \<lparr> o_id = Some ''open'', o_name = Some ''Open'', o_color = None,
                       o_iconURL = None \<rparr>,
                Some \<lparr> o_id = None, o_name = Some ''Orphan'', o_color = Some ''#FF0000'',
                       o_iconURL = None \<rparr>]"
  have a: "srv_statusOptions tracker (sent_count connected) ''P'' ''task'' = Response 200 (Some ?opts)"
    by (simp add: tracker_def)
  from status_mapping_entries [OF a, of 0] obtain m where
    c: "statusCache tracked (''P'' @ '':'' @ ''task'') = Some \<lparr> statuses = m, status_entry.time = 0 \<rparr>"
    and d: "None \<notin> set ?opts \<longrightarrow>
                dom m = {k. \<exists>opt. Some opt \<in> set ?opts \<and> o_id opt = Some k \<and> k \<noteq> [] \<and>
                                  truthy (o_name opt)}"
    unfolding tracked_def by blast
  from c have m: "statuses (the (statusCache tracked ''P:task'')) = m" by simp
  from d have "dom m = {k. \<exists>opt. Some opt \<in> set ?opts \<and> o_id opt = Some k \<and> k \<noteq> [] \<and>
                                  truthy (o_name opt)}" by simp
  also have "\<dots> = {''open''}" by (auto simp: truthy_def conj_disj_distribR ex_disj_distrib)
  finally have dm: "dom (statuses (the (statusCache tracked ''P:task''))) = {''open''}"
    by (simp only: m)
  have v: "statuses (the (statusCache tracked ''P:task'')) ''open'' =
     Some \<lparr> status_info.name = ''Open'', status_info.color = ''#000000'',
            status_info.iconPath = None \<rparr>"
    by (simp add: tracked_eval)
  from a v dm show ?thesis by (intro conjI)
qed

subsection \<open>The exception counter and the restart\<close>

lemma initialize_keeps:
  "itemCache (initialize srv cfg s) = itemCache s \<and>
   attachmentCache (initialize srv cfg s) = attachmentCache s \<and>
   statusCache (initialize srv cfg s) = statusCache s \<and>
   workitemTypeCache (initialize srv cfg s) = workitemTypeCache s \<and>
   iconCache (initialize srv cfg s) = iconCache s \<and>
   userCache (initialize srv cfg s) = userCache s \<and>
   exceptionCount (initialize srv cfg s) = exceptionCount s"
proof -
  have r: "itemCache (retrieveTokenFromSettings cfg s) = itemCache s \<and>
   attachmentCache (retrieveTokenFromSettings cfg s) = attachmentCache s \<and>
   statusCache (retrieveTokenFromSettings cfg s) = statusCache s \<and>
   workitemTypeCache (retrieveTokenFromSettings cfg s) = workitemTypeCache s \<and>
   iconCache (retrieveTokenFromSettings cfg s) = iconCache s \<and>
   userCache (retrieveTokenFromSettings cfg s) = userCache s \<and>
   exceptionCount (retrieveTokenFromSettings cfg s) = exceptionCount s" for s
    by (simp add: retrieveTokenFromSettings_def Let_def split: option.splits)
  have a: "setupAuthentication s = Inr s2 \<Longrightarrow>
   itemCache s2 = itemCache s \<and> attachmentCache s2 = attachmentCache s \<and>
   statusCache s2 = statusCache s \<and> workitemTypeCache s2 = workitemTypeCache s \<and>
   iconCache s2 = iconCache s \<and> userCache s2 = userCache s \<and>
   exceptionCount s2 = exceptionCount s" for s s2
    by (auto simp: setupAuthentication_def set_default_headers_def Let_def split: if_splits)
  have t: "testConnection srv s = (x, s3) \<Longrightarrow>
   itemCache s3 = itemCache s \<and> attachmentCache s3 = attachmentCache s \<and>
   statusCache s3 = statusCache s \<and> workitemTypeCache s3 = workitemTypeCache s \<and>
   iconCache s3 = iconCache s \<and> userCache s3 = userCache s \<and>
   exceptionCount s3 = exceptionCount s" for s x s3
    by (auto simp: testConnection_def issue_def Let_def split: outcome.splits if_splits)
  obtain x s1 where i: "initialize_try srv cfg s = (x, s1)" by (cases "initialize_try srv cfg s")
  have "itemCache s1 = itemCache s \<and> attachmentCache s1 = attachmentCache s \<and>
   statusCache s1 = statusCache s \<and> workitemTypeCache s1 = workitemTypeCache s \<and>
   iconCache s1 = iconCache s \<and> userCache s1 = userCache s \<and>
   exceptionCount s1 = exceptionCount s"
  proof (cases "useTokenAuth s")
    case True
    show ?thesis
    proof (cases "setupAuthentication (retrieveTokenFromSettings cfg s)")
      case (Inl e)
      with i True r [of s] show ?thesis by (simp add: initialize_try_def)
    next
      case (Inr s2)
      with i True have "testConnection srv s2 = (x, s1)" by (simp add: initialize_try_def)
      from t [OF this] a [OF Inr] r [of s] show ?thesis by simp
    qed
  next
    case False
    show ?thesis
    proof (cases "setupAuthentication s")
      case (Inl e)
      with i False show ?thesis by (simp add: initialize_try_def)
    next
      case (Inr s2)
      with i False have "testConnection srv s2 = (x, s1)" by (simp add: initialize_try_def)
      from t [OF this] a [OF Inr] show ?thesis by simp
    qed
  qed
  with i show ?thesis by (cases x) (simp_all add: initialize_def)
qed

lemma createPolarion_fresh:
  assumes "createPolarion srv cfg = Some created"
  shows "exceptionCount created = 0 \<and> itemCache created = Map.empty \<and>
         attachmentCache created = Map.empty \<and> statusCache created = Map.empty \<and>
         workitemTypeCache created = Map.empty \<and> iconCache created = Map.empty \<and>
         userCache created = Map.empty"
proof -
  from assms obtain url un pw tk where
    "created = initialize srv cfg (new_Polarion url un pw tk)"
    by (auto simp: createPolarion_def Let_def split: option.splits if_splits)
  with initialize_keeps [of srv cfg "new_Polarion url un pw tk"]
  show ?thesis by (simp add: new_Polarion_def)
qed

text \<open>The \<^verbatim>\<open>catch\<close> block on an error that is counted, with a threshold \<open>N > 0\<close>.\<close>

lemma counted_failure_step:
  assumes "initialized s" and "srv_workitems srv (sent_count s) i = Rejected e" and "counted e"
    and "ExceptionRestart cfg = Some N" and "0 < N"
  shows "getWorkItemFromPolarion srv cfg now i s =
           (if int (exceptionCount s) > N
            then (None, issue (item_query i) s, createPolarion srv cfg)
            else (None, (issue (item_query i) s)
                          \<lparr>exceptionCount := exceptionCount (issue (item_query i) s) + 1\<rparr>, None))"
  using assms
  by (simp add: getWorkItemFromPolarion_def getWorkItemFromPolarion_try_def counted_def Let_def)

lemma counted_failures_below_threshold:
  assumes "\<forall>n i. \<exists>e. srv_workitems srv n i = Rejected e \<and> counted e"
    and "ExceptionRestart cfg = Some (int N)" and "0 < N"
  shows "initialized s \<Longrightarrow> exceptionCount s + length ids \<le> N + 1 \<Longrightarrow>
         snd (fetch_until_restart srv cfg now ids s) = None \<and>
         exceptionCount (fst (fetch_until_restart srv cfg now ids s)) = exceptionCount s + length ids \<and>
         initialized (fst (fetch_until_restart srv cfg now ids s))"
proof (induction ids arbitrary: s)
  case Nil
  then show ?case by simp
next
  case (Cons i ids)
  from assms(1) obtain e where e: "srv_workitems srv (sent_count s) i = Rejected e" "counted e"
    by blast
  let ?s1 = "(issue (item_query i) s)\<lparr>exceptionCount := exceptionCount (issue (item_query i) s) + 1\<rparr>"
  from Cons.prems have le: "\<not> int (exceptionCount s) > int N" by simp
  from counted_failure_step [OF Cons.prems(1) e assms(2), of now] assms(3) le
  have f: "getWorkItemFromPolarion srv cfg now i s = (None, ?s1, None)" by simp
  have i1: "initialized ?s1" using Cons.prems(1) by simp
  have c1: "exceptionCount ?s1 = exceptionCount s + 1" by simp
  from Cons.prems(2) c1 have "exceptionCount ?s1 + length ids \<le> N + 1" by simp
  from Cons.IH [OF i1 this] f c1 show ?case by simp
qed

lemma fetch_until_restart_snoc:
  "snd (fetch_until_restart srv cfg now ids s) = None \<Longrightarrow>
   fetch_until_restart srv cfg now (ids @ [i]) s =
     (case getWorkItemFromPolarion srv cfg now i (fst (fetch_until_restart srv cfg now ids s)) of
        (r, s1, c) \<Rightarrow> (s1, c))"
proof (induction ids arbitrary: s)
  case Nil
  show ?case by (simp split: prod.splits option.splits)
next
  case (Cons j ids)
  obtain r s1 c where f: "getWorkItemFromPolarion srv cfg now j s = (r, s1, c)"
    by (cases "getWorkItemFromPolarion srv cfg now j s")
  show ?case
  proof (cases c)
    case None
    with Cons.prems f have "snd (fetch_until_restart srv cfg now ids s1) = None" by simp
    from Cons.IH [OF this] f None show ?thesis by simp
  next
    case (Some created)
    with Cons.prems f show ?thesis by simp
  qed
qed

text \<open>
  Claim C1 says that with a threshold \<open>N\<close> the \<open>(N+1)\<close>-th counted failure re-creates
  the session and resets the counter. With \<open>N = 1\<close> and a session whose counter is 0, the
  second counted failure re-creates nothing and leaves the counter at 2: the \<^verbatim>\<open>catch\<close>
  block compares the counter with the threshold before it increments it.
\<close>

theorem restart_threshold_counterexample:
  "ExceptionRestart settings = Some 1 \<and> exceptionCount connected = 0 \<and>
   snd (fetch_until_restart offline settings 0 [''A-1'', ''A-2''] connected) = None \<and>
   exceptionCount (fst (fetch_until_restart offline settings 0 [''A-1'', ''A-2''] connected)) = 2"
  by (simp add: getWorkItemFromPolarion_def getWorkItemFromPolarion_try_def Let_def issue_def
        sent_count_def example_defs)

text \<open>
  Claim C1, amended. With a threshold \<open>N > 0\<close>, on an initialized session whose counter is
  0 and a service that rejects every work item query with an error other than 404, 401
  and 403: the first \<open>N + 1\<close> fetches each increment the counter and re-create nothing;
  the next one, the \<open>(N+2)\<close>-th, calls \<^verbatim>\<open>createPolarion\<close> instead of incrementing, so
  the counter of the old session stays at \<open>N + 1\<close>; and a session that \<^verbatim>\<open>createPolarion\<close>
  creates has the counter 0 and six empty caches.
\<close>

theorem restart_after_threshold_exceeded:
  assumes "ExceptionRestart cfg = Some (int N)" and "0 < N"
    and "initialized s" and "exceptionCount s = 0"
    and "\<forall>n i. \<exists>e. srv_workitems srv n i = Rejected e \<and> counted e"
    and "length ids = N + 1"
  shows "snd (fetch_until_restart srv cfg now ids s) = None \<and>
         exceptionCount (fst (fetch_until_restart srv cfg now ids s)) = N + 1 \<and>
         snd (fetch_until_restart srv cfg now (ids @ [i]) s) = createPolarion srv cfg \<and>
         exceptionCount (fst (fetch_until_restart srv cfg now (ids @ [i]) s)) = N + 1 \<and>
         (\<forall>created. createPolarion srv cfg = Some created \<longrightarrow>
            exceptionCount created = 0 \<and> itemCache created = Map.empty \<and>
            attachmentCache created = Map.empty \<and> statusCache created = Map.empty \<and>
            workitemTypeCache created = Map.empty \<and> iconCache created = Map.empty \<and>
            userCache created = Map.empty)"
proof -
  let ?s' = "fst (fetch_until_restart srv cfg now ids s)"
  from counted_failures_below_threshold [OF assms(5) assms(1) assms(2) assms(3), of ids now]
    assms(4) assms(6)
  have a: "snd (fetch_until_restart srv cfg now ids s) = None"
    and b: "exceptionCount ?s' = N + 1" and c: "initialized ?s'" by simp_all
  from assms(5) obtain e where e: "srv_workitems srv (sent_count ?s') i = Rejected e" "counted e"
    by blast
  from assms(2) have n: "0 < int N" by simp
  from counted_failure_step [OF c e assms(1) n, of now] b
  have f: "getWorkItemFromPolarion srv cfg now i ?s' =
             (None, issue (item_query i) ?s', createPolarion srv cfg)" by simp
  from fetch_until_restart_snoc [OF a, of i] f
  have g: "fetch_until_restart srv cfg now (ids @ [i]) s =
             (issue (item_query i) ?s', createPolarion srv cfg)" by simp
  have h: "exceptionCount (issue (item_query i) ?s') = N + 1" using b by simp
  from a b g h createPolarion_fresh [of srv cfg] show ?thesis by simp
qed

lemma createPolarion_offline: "createPolarion offline settings = Some restarted"
  by (simp add: createPolarion_def settings_def fresh_def restarted_def truthy_def jor_str_def)

theorem restart_after_threshold_exceeded_witness:
  "ExceptionRestart settings = Some 1 \<and> initialized connected \<and> exceptionCount connected = 0 \<and>
   snd (fetch_until_restart offline settings 0 [''A-1'', ''A-2''] connected) = None \<and>
   snd (fetch_until_restart offline settings 0 [''A-1'', ''A-2'', ''A-3''] connected) = Some restarted \<and>
   exceptionCount (fst (fetch_until_restart offline settings 0 [''A-1'', ''A-2'', ''A-3''] connected)) = 2 \<and>
   exceptionCount restarted = 0 \<and> itemCache restarted = Map.empty"
proof -
  have a: "ExceptionRestart settings = Some (int 1)" by (simp add: settings_def)
  have b: "initialized connected" "exceptionCount connected = 0" by (simp_all add: example_defs)
  have c: "\<forall>n i. \<exists>e. srv_workitems offline n i = Rejected e \<and> counted e"
    by (simp add: offline_def counted_def network_error_def)
  have d: "length [''A-1'', ''A-2''] = 1 + 1" by simp
  have e: "(0::nat) < 1" by simp
  note t = restart_after_threshold_exceeded [OF a e b c d, of 0 "''A-3''"]
  from t have t1: "snd (fetch_until_restart offline settings 0 [''A-1'', ''A-2''] connected) = None"
    by (rule conjunct1)
  from t have t2: "snd (fetch_until_restart offline settings 0 ([''A-1'', ''A-2''] @ [''A-3'']) connected)
      = createPolarion offline settings" by blast
  from t have t3: "exceptionCount (fst (fetch_until_restart offline settings 0
      ([''A-1'', ''A-2''] @ [''A-3'']) connected)) = 1 + 1" by blast
  from t createPolarion_offline have t4: "exceptionCount restarted = 0 \<and> itemCache restarted = Map.empty"
    by blast
  from a b t1 t2 t3 t4 createPolarion_offline show ?thesis by simp
qed

subsection \<open>Resolving on a session that is not initialized\<close>










subsection \<open>Staleness in each cache\<close>

lemma enum_step_sent: "enum_step s s' \<Longrightarrow> sent_count s \<le> sent_count s'"
  by (auto simp: enum_step_def sent_count_def)

lemma sent_count_issue [simp]: "sent_count (issue q s) = sent_count s + 1"
  by (simp add: sent_count_def issue_def)

lemma sent_count_cache_updates [simp]:
  "sent_count (s\<lparr>statusCache := a\<rparr>) = sent_count s"
  "sent_count (s\<lparr>workitemTypeCache := b\<rparr>) = sent_count s"
  "sent_count (s\<lparr>userCache := c\<rparr>) = sent_count s"
  "sent_count (s\<lparr>itemCache := d\<rparr>) = sent_count s"
  by (simp_all add: sent_count_def)

text \<open>The status and type fetches send their request first.\<close>

lemma fetchStatusMappings_sends:
  "sent_count s < sent_count (fetchStatusMappingsFromPolarion srv now p t s)"
proof -
  define q where "q = Get (''/polarion/rest/v1/projects/'' @ p
                             @ ''/workitems/fields/status/actions/getAvailableOptions'')
                        [(''type'', t)] Json []"
  have b: "sent_count s < sent_count s2"
    if "process_status_options srv opts Map.empty (issue q s) = (x, s2)" for opts x s2
    using enum_step_sent [OF process_status_options_step [OF that]] by simp
  show ?thesis
    using b unfolding fetchStatusMappingsFromPolarion_def fetchStatusMappings_try_def Let_def
      q_def [symmetric]
    by (auto split: outcome.splits option.splits prod.splits sum.splits)
qed

lemma fetchWorkitemTypeMappings_sends:
  "sent_count s < sent_count (fetchWorkitemTypeMappingsFromPolarion srv now p s)"
proof -
  define q where "q = Get (''/polarion/rest/v1/projects/'' @ p
                             @ ''/enumerations/~/workitem-type/~'') [] Json []"
  have b: "sent_count s < sent_count s2"
    if "process_type_options srv opts Map.empty (issue q s) = (x, s2)" for opts x s2
    using enum_step_sent [OF process_type_options_step [OF that]] by simp
  show ?thesis
    using b unfolding fetchWorkitemTypeMappingsFromPolarion_def fetchWorkitemTypeMappings_try_def
      Let_def q_def [symmetric]
    by (auto split: outcome.splits option.splits prod.splits sum.splits)
qed

lemma fetchUser_sends_and_stores:
  "sent_count s < sent_count (fetchUserFromPolarion srv now u s) \<and>
   (\<exists>ui. userCache (fetchUserFromPolarion srv now u s) u =
            Some \<lparr> user = ui, user_entry.time = now \<rparr>)"
  unfolding fetchUserFromPolarion_def Let_def
  by (auto split: outcome.splits option.splits)

text \<open>The four caches with a timestamp: an entry is used as long as it is not stale.\<close>

lemma item_tier:
  assumes "initialized s" and "itemCache s i = Some ie"
  shows "(\<not> stale cfg now (item_entry.time ie) \<longrightarrow>
            getWorkItem srv cfg now i s = (workitem ie, s, None)) \<and>
         (stale cfg now (item_entry.time ie) \<longrightarrow>
            sent_count s < sent_count (fst (snd (getWorkItem srv cfg now i s))) \<and>
            (\<exists>r. itemCache (fst (snd (getWorkItem srv cfg now i s))) i =
                   Some \<lparr> workitem = r, item_entry.time = now \<rparr>))"
proof (intro conjI impI)
  assume "\<not> stale cfg now (item_entry.time ie)"
  with getWorkItem_no_fetch [where s = s and i = i and cfg = cfg and now = now and srv = srv] assms
  show "getWorkItem srv cfg now i s = (workitem ie, s, None)" by simp
next
  assume st: "stale cfg now (item_entry.time ie)"
  obtain r s' c where f: "getWorkItemFromPolarion srv cfg now i s = (r, s', c)"
    by (cases "getWorkItemFromPolarion srv cfg now i s")
  from st assms have "initialized s \<and> (case itemCache s i of None \<Rightarrow> True
        | Some item \<Rightarrow> stale cfg now (item_entry.time item))" by simp
  from getWorkItem_fetch [OF this f]
  have g: "fst (snd (getWorkItem srv cfg now i s)) =
      s'\<lparr>itemCache := (itemCache s')(i \<mapsto> \<lparr> workitem = r, item_entry.time = now \<rparr>)\<rparr>" by simp
  from getWorkItemFromPolarion_requests [OF assms(1) f]
  have "sent_count s < sent_count s'" by (auto simp: sent_count_def)
  then show "sent_count s < sent_count (fst (snd (getWorkItem srv cfg now i s)))"
    by (simp add: g)
  show "\<exists>r. itemCache (fst (snd (getWorkItem srv cfg now i s))) i =
                   Some \<lparr> workitem = r, item_entry.time = now \<rparr>"
    by (simp add: g)
qed

lemma status_tier:
  assumes "initialized s" and "statusCache s (p @ '':'' @ t) = Some se"
  shows "(\<not> stale cfg now (status_entry.time se) \<longrightarrow>
            getStatusMappings srv cfg now p t s = (statuses se, s)) \<and>
         (stale cfg now (status_entry.time se) \<longrightarrow>
            sent_count s < sent_count (snd (getStatusMappings srv cfg now p t s)))"
  using assms fetchStatusMappings_sends [of s srv now p t]
  by (auto simp: getStatusMappings_def Let_def split: option.splits)

lemma type_tier:
  assumes "initialized s" and "workitemTypeCache s p = Some te"
  shows "(\<not> stale cfg now (type_entry.time te) \<longrightarrow>
            getWorkitemTypeMappings srv cfg now p s = (types te, s)) \<and>
         (stale cfg now (type_entry.time te) \<longrightarrow>
            sent_count s < sent_count (snd (getWorkitemTypeMappings srv cfg now p s)))"
  using assms fetchWorkitemTypeMappings_sends [of s srv now p]
  by (auto simp: getWorkitemTypeMappings_def Let_def split: option.splits)

lemma user_tier:
  assumes "initialized s" and "userCache s u = Some ue"
  shows "(\<not> stale cfg now (user_entry.time ue) \<longrightarrow>
            getUserInfo srv cfg now u s = (user ue, s)) \<and>
         (stale cfg now (user_entry.time ue) \<longrightarrow>
            sent_count s < sent_count (snd (getUserInfo srv cfg now u s)) \<and>
            (\<exists>ui. userCache (snd (getUserInfo srv cfg now u s)) u =
                   Some \<lparr> user = ui, user_entry.time = now \<rparr>))"
  using assms fetchUser_sends_and_stores [of s srv now u]
  by (auto simp: getUserInfo_def Let_def split: option.splits)

lemma attachment_tier:
  "attachmentCache s (w @ '':'' @ a) = Some v \<Longrightarrow>
     downloadWorkitemAttachmentForProject srv w a p s = (if v \<noteq> [] then Some v else None, s)"
  by (simp add: downloadWorkitemAttachmentForProject_def Let_def)

lemma icon_tier:
  "iconCache s u = Some v \<Longrightarrow> downloadStatusIcon srv u s = (Some v, s)"
  by (simp add: downloadStatusIcon_def)

lemma downloadStatusIcon_caches:
  "statusCache (snd (downloadStatusIcon srv u s)) = statusCache s \<and>
   workitemTypeCache (snd (downloadStatusIcon srv u s)) = workitemTypeCache s"
  by (simp add: downloadStatusIcon_def issue_def Let_def split: option.splits outcome.splits)

lemma add_status_option_caches:
  "add_status_option srv opt m s = (m1, s1) \<Longrightarrow> statusCache s1 = statusCache s"
  using downloadStatusIcon_caches [of srv "the (o_iconURL opt)" s]
  by (auto simp: add_status_option_def split: prod.splits if_splits)

lemma process_status_options_caches:
  "process_status_options srv opts m s = (r, s') \<Longrightarrow> statusCache s' = statusCache s"
proof (induction opts arbitrary: m s)
  case Nil
  then show ?case by simp
next
  case (Cons x opts)
  show ?case
  proof (cases x)
    case None
    with Cons.prems show ?thesis by simp
  next
    case (Some opt)
    obtain m1 s1 where a: "add_status_option srv opt m s = (m1, s1)"
      by (cases "add_status_option srv opt m s")
    from Cons.IH [where m = m1 and s = s1] Cons.prems Some a add_status_option_caches [OF a]
    show ?thesis by simp
  qed
qed

lemma add_type_option_caches:
  "add_type_option srv opt m s = (m1, s1) \<Longrightarrow> workitemTypeCache s1 = workitemTypeCache s"
  using downloadStatusIcon_caches [of srv "the (o_iconURL opt)" s]
  by (auto simp: add_type_option_def downloadWorkitemTypeIcon_def split: prod.splits if_splits)

lemma process_type_options_caches:
  "process_type_options srv opts m s = (r, s') \<Longrightarrow> workitemTypeCache s' = workitemTypeCache s"
proof (induction opts arbitrary: m s)
  case Nil
  then show ?case by simp
next
  case (Cons x opts)
  show ?case
  proof (cases x)
    case None
    with Cons.prems show ?thesis by simp
  next
    case (Some opt)
    obtain m1 s1 where a: "add_type_option srv opt m s = (m1, s1)"
      by (cases "add_type_option srv opt m s")
    from Cons.IH [where m = m1 and s = s1] Cons.prems Some a add_type_option_caches [OF a]
    show ?thesis by simp
  qed
qed

text \<open>An entry that a status or type fetch stores has the current time.\<close>

lemma fetchStatusMappings_stores:
  "statusCache (fetchStatusMappingsFromPolarion srv now p t s) k = statusCache s k \<or>
   (\<exists>m. statusCache (fetchStatusMappingsFromPolarion srv now p t s) k =
           Some \<lparr> statuses = m, status_entry.time = now \<rparr>)"
proof -
  define q where "q = Get (''/polarion/rest/v1/projects/'' @ p
                             @ ''/workitems/fields/status/actions/getAvailableOptions'')
                        [(''type'', t)] Json []"
  have b: "statusCache s2 = statusCache s"
    if "process_status_options srv opts Map.empty (issue q s) = (x, s2)" for opts x s2
    using process_status_options_caches [OF that] by (simp add: issue_def)
  have c: "statusCache (issue q s) = statusCache s" by (simp add: issue_def)
  show ?thesis
    using b c unfolding fetchStatusMappingsFromPolarion_def fetchStatusMappings_try_def Let_def
      q_def [symmetric]
    by (auto split: outcome.splits option.splits prod.splits sum.splits)
qed

lemma fetchWorkitemTypeMappings_stores:
  "workitemTypeCache (fetchWorkitemTypeMappingsFromPolarion srv now p s) k = workitemTypeCache s k \<or>
   (\<exists>m. workitemTypeCache (fetchWorkitemTypeMappingsFromPolarion srv now p s) k =
           Some \<lparr> types = m, type_entry.time = now \<rparr>)"
proof -
  define q where "q = Get (''/polarion/rest/v1/projects/'' @ p
                             @ ''/enumerations/~/workitem-type/~'') [] Json []"
  have b: "workitemTypeCache s2 = workitemTypeCache s"
    if "process_type_options srv opts Map.empty (issue q s) = (x, s2)" for opts x s2
    using process_type_options_caches [OF that] by (simp add: issue_def)
  have c: "workitemTypeCache (issue q s) = workitemTypeCache s" by (simp add: issue_def)
  show ?thesis
    using b c unfolding fetchWorkitemTypeMappingsFromPolarion_def
      fetchWorkitemTypeMappings_try_def Let_def q_def [symmetric]
    by (auto split: outcome.splits option.splits prod.splits sum.splits)
qed

lemma getStatusMappings_stores:
  "statusCache (snd (getStatusMappings srv cfg now p t s)) k = statusCache s k \<or>
   (\<exists>m. statusCache (snd (getStatusMappings srv cfg now p t s)) k =
           Some \<lparr> statuses = m, status_entry.time = now \<rparr>)"
  using fetchStatusMappings_stores [of srv now p t s k]
  by (auto simp: getStatusMappings_def Let_def split: option.splits)

lemma getWorkitemTypeMappings_stores:
  "workitemTypeCache (snd (getWorkitemTypeMappings srv cfg now p s)) k = workitemTypeCache s k \<or>
   (\<exists>m. workitemTypeCache (snd (getWorkitemTypeMappings srv cfg now p s)) k =
           Some \<lparr> types = m, type_entry.time = now \<rparr>)"
  using fetchWorkitemTypeMappings_stores [of srv now p s k]
  by (auto simp: getWorkitemTypeMappings_def Let_def split: option.splits)

text \<open>
  Claim C4 says that an entry of any of the six caches carries the time of its fetch and
  is stale by its age. The attachment cache and the icon cache map a key to a string,
  and their entries are returned without a request whatever the time: here the item
  entry of the same session, stored at time 0, is stale and refetched, while the
  attachment and the icon come from the cache.
\<close>

theorem untimed_tiers_counterexample:
  "stale settings 600000000 0 \<and>
   sent_count warm < sent_count (fst (snd (getWorkItem offline settings 600000000 ''ABC-1'' warm))) \<and>
   downloadWorkitemAttachmentForProject offline ''ABC-1'' ''img1'' ''P'' warm =
     (Some ''aGVsbG8='', warm) \<and>
   downloadStatusIcon offline ''/icons/open.gif'' warm = (Some ''data:image/gif;base64,R0lG'', warm)"
proof -
  have st: "stale settings 600000000 0" by (simp add: stale_def settings_def)
  have i: "initialized warm" by (simp add: example_defs)
  have c: "itemCache warm ''ABC-1'' = Some \<lparr> workitem = Some example_item, item_entry.time = 0 \<rparr>"
    by (simp add: warm_def)
  from item_tier [OF i c, of settings 600000000 offline] st
  have a: "sent_count warm <
             sent_count (fst (snd (getWorkItem offline settings 600000000 ''ABC-1'' warm)))" by simp
  have "attachmentCache warm (''ABC-1'' @ '':'' @ ''img1'') = Some ''aGVsbG8=''"
    by (simp add: warm_def)
  from attachment_tier [OF this, of offline "''P''"]
  have b: "downloadWorkitemAttachmentForProject offline ''ABC-1'' ''img1'' ''P'' warm =
     (Some ''aGVsbG8='', warm)" by simp
  have "iconCache warm ''/icons/open.gif'' = Some ''data:image/gif;base64,R0lG''"
    by (simp add: warm_def)
  from icon_tier [OF this, of offline]
  have d: "downloadStatusIcon offline ''/icons/open.gif'' warm =
     (Some ''data:image/gif;base64,R0lG'', warm)" .
  from st a b d show ?thesis by (intro conjI)
qed

text \<open>
  Claim C4, amended. On an initialized session, an entry of the item, status, type or
  user cache carries a time, and whether the resolver uses it depends only on \<open>stale\<close>,
  that is on the distance of that time from now and on the setting \<^verbatim>\<open>RefreshTime\<close>, the
  same for the four caches: an entry that is not stale is returned and the session is
  unchanged, a stale one makes the resolver send a request; an entry that such a call
  stores has the current time. An entry of the attachment cache or of the icon cache
  carries no time and is returned without a request, whatever the time and the setting.
\<close>

theorem timestamped_tiers:
  assumes "initialized s"
  shows "(\<forall>ie. itemCache s i = Some ie \<longrightarrow>
           (\<not> stale cfg now (item_entry.time ie) \<longrightarrow>
              getWorkItem srv cfg now i s = (workitem ie, s, None)) \<and>
           (stale cfg now (item_entry.time ie) \<longrightarrow>
              sent_count s < sent_count (fst (snd (getWorkItem srv cfg now i s))) \<and>
              (\<exists>r. itemCache (fst (snd (getWorkItem srv cfg now i s))) i =
                     Some \<lparr> workitem = r, item_entry.time = now \<rparr>))) \<and>
         (\<forall>se. statusCache s (p @ '':'' @ t) = Some se \<longrightarrow>
           (\<not> stale cfg now (status_entry.time se) \<longrightarrow>
              getStatusMappings srv cfg now p t s = (statuses se, s)) \<and>
           (stale cfg now (status_entry.time se) \<longrightarrow>
              sent_count s < sent_count (snd (getStatusMappings srv cfg now p t s))) \<and>
           (statusCache (snd (getStatusMappings srv cfg now p t s)) (p @ '':'' @ t) = Some se \<or>
            (\<exists>m. statusCache (snd (getStatusMappings srv cfg now p t s)) (p @ '':'' @ t) =
                    Some \<lparr> statuses = m, status_entry.time = now \<rparr>))) \<and>
         (\<forall>te. workitemTypeCache s p = Some te \<longrightarrow>
           (\<not> stale cfg now (type_entry.time te) \<longrightarrow>
              getWorkitemTypeMappings srv cfg now p s = (types te, s)) \<and>
           (stale cfg now (type_entry.time te) \<longrightarrow>
              sent_count s < sent_count (snd (getWorkitemTypeMappings srv cfg now p s))) \<and>
           (workitemTypeCache (snd (getWorkitemTypeMappings srv cfg now p s)) p = Some te \<or>
            (\<exists>m. workitemTypeCache (snd (getWorkitemTypeMappings srv cfg now p s)) p =
                    Some \<lparr> types = m, type_entry.time = now \<rparr>))) \<and>
         (\<forall>ue. userCache s u = Some ue \<longrightarrow>
           (\<not> stale cfg now (user_entry.time ue) \<longrightarrow>
              getUserInfo srv cfg now u s = (user ue, s)) \<and>
           (stale cfg now (user_entry.time ue) \<longrightarrow>
              sent_count s < sent_count (snd (getUserInfo srv cfg now u s)) \<and>
              (\<exists>ui. userCache (snd (getUserInfo srv cfg now u s)) u =
                     Some \<lparr> user = ui, user_entry.time = now \<rparr>))) \<and>
         (\<forall>v. attachmentCache s (w @ '':'' @ a) = Some v \<longrightarrow>
           downloadWorkitemAttachmentForProject srv w a p s =
             (if v \<noteq> [] then Some v else None, s)) \<and>
         (\<forall>v. iconCache s iconURL = Some v \<longrightarrow>
           downloadStatusIcon srv iconURL s = (Some v, s))"
proof (intro conjI allI impI)
  fix ie assume c: "itemCache s i = Some ie"
  note t = item_tier [OF assms c, of cfg now srv]
  { assume "\<not> stale cfg now (item_entry.time ie)"
    with t show "getWorkItem srv cfg now i s = (workitem ie, s, None)" by blast }
  { assume "stale cfg now (item_entry.time ie)"
    with t show "sent_count s < sent_count (fst (snd (getWorkItem srv cfg now i s)))"
      and "\<exists>r. itemCache (fst (snd (getWorkItem srv cfg now i s))) i =
                     Some \<lparr> workitem = r, item_entry.time = now \<rparr>" by blast+ }
next
  fix se assume c: "statusCache s (p @ '':'' @ t) = Some se"
  note t = status_tier [OF assms c, of cfg now srv]
  { assume "\<not> stale cfg now (status_entry.time se)"
    with t show "getStatusMappings srv cfg now p t s = (statuses se, s)" by blast }
  { assume "stale cfg now (status_entry.time se)"
    with t show "sent_count s < sent_count (snd (getStatusMappings srv cfg now p t s))" by blast }
  from getStatusMappings_stores [of srv cfg now p t s "p @ '':'' @ t"] c
  show "statusCache (snd (getStatusMappings srv cfg now p t s)) (p @ '':'' @ t) = Some se \<or>
            (\<exists>m. statusCache (snd (getStatusMappings srv cfg now p t s)) (p @ '':'' @ t) =
                    Some \<lparr> statuses = m, status_entry.time = now \<rparr>)" by simp
next
  fix te assume c: "workitemTypeCache s p = Some te"
  note t = type_tier [OF assms c, of cfg now srv]
  { assume "\<not> stale cfg now (type_entry.time te)"
    with t show "getWorkitemTypeMappings srv cfg now p s = (types te, s)" by blast }
  { assume "stale cfg now (type_entry.time te)"
    with t show "sent_count s < sent_count (snd (getWorkitemTypeMappings srv cfg now p s))"
      by blast }
  from getWorkitemTypeMappings_stores [of srv cfg now p s p] c
  show "workitemTypeCache (snd (getWorkitemTypeMappings srv cfg now p s)) p = Some te \<or>
            (\<exists>m. workitemTypeCache (snd (getWorkitemTypeMappings srv cfg now p s)) p =
                    Some \<lparr> types = m, type_entry.time = now \<rparr>)" by simp
next
  fix ue assume c: "userCache s u = Some ue"
  note t = user_tier [OF assms c, of cfg now srv]
  { assume "\<not> stale cfg now (user_entry.time ue)"
    with t show "getUserInfo srv cfg now u s = (user ue, s)" by blast }
  { assume "stale cfg now (user_entry.time ue)"
    with t show "sent_count s < sent_count (snd (getUserInfo srv cfg now u s))"
      and "\<exists>ui. userCache (snd (getUserInfo srv cfg now u s)) u =
                     Some \<lparr> user = ui, user_entry.time = now \<rparr>" by blast+ }
next
  fix v assume "attachmentCache s (w @ '':'' @ a) = Some v"
  then show "downloadWorkitemAttachmentForProject srv w a p s =
             (if v \<noteq> [] then Some v else None, s)" by (rule attachment_tier)
next
  fix v assume "iconCache s iconURL = Some v"
  then show "downloadStatusIcon srv iconURL s = (Some v, s)" by (rule icon_tier)
qed

theorem timestamped_tiers_witness:
  "initialized warm \<and> \<not> stale settings 60000 0 \<and> stale settings 600000000 0 \<and>
   getWorkItem offline settings 60000 ''ABC-1'' warm = (Some example_item, warm, None) \<and>
   sent_count warm < sent_count (fst (snd (getWorkItem offline settings 600000000 ''ABC-1'' warm))) \<and>
   snd (getStatusMappings offline settings 60000 ''P'' ''task'' warm) = warm \<and>
   sent_count warm < sent_count (snd (getStatusMappings offline settings 600000000 ''P'' ''task'' warm)) \<and>
   snd (getWorkitemTypeMappings offline settings 60000 ''P'' warm) = warm \<and>
   sent_count warm < sent_count (snd (getWorkitemTypeMappings offline settings 600000000 ''P'' warm)) \<and>
   getUserInfo offline settings 60000 ''u1'' warm =
     (\<lparr> user_info.name = ''Ursula'', user_info.email = None, user_info.initials = None \<rparr>, warm) \<and>
   sent_count warm < sent_count (snd (getUserInfo offline settings 600000000 ''u1'' warm)) \<and>
   downloadWorkitemAttachmentForProject offline ''ABC-1'' ''img1'' ''P'' warm =
     (Some ''aGVsbG8='', warm) \<and>
   downloadStatusIcon offline ''/icons/open.gif'' warm = (Some ''data:image/gif;base64,R0lG'', warm)"
proof -
  have i: "initialized warm" by (simp add: example_defs)
  have f: "\<not> stale settings 60000 0" and st: "stale settings 600000000 0"
    by (simp_all add: stale_def settings_def)
  have ci: "itemCache warm ''ABC-1'' = Some \<lparr> workitem = Some example_item, item_entry.time = 0 \<rparr>"
    by (simp add: warm_def)
  have cs: "statusCache warm (''P'' @ '':'' @ ''task'') =
      Some \<lparr> statuses = [''open'' \<mapsto> \<lparr> status_info.name = ''Open'', status_info.color = ''#00FF00'',
                                        status_info.iconPath = None \<rparr>],
             status_entry.time = 0 \<rparr>"
    by (simp add: warm_def)
  have ct: "workitemTypeCache warm ''P'' =
      Some \<lparr> types = [''task'' \<mapsto> \<lparr> type_info.name = ''Task'', type_info.iconPath = None \<rparr>],
             type_entry.time = 0 \<rparr>"
    by (simp add: warm_def)
  have cu: "userCache warm ''u1'' =
      Some \<lparr> user = \<lparr> user_info.name = ''Ursula'', user_info.email = None,
                       user_info.initials = None \<rparr>, user_entry.time = 0 \<rparr>"
    by (simp add: warm_def)
  have ca: "attachmentCache warm (''ABC-1'' @ '':'' @ ''img1'') = Some ''aGVsbG8=''"
    by (simp add: warm_def)
  have cc: "iconCache warm ''/icons/open.gif'' = Some ''data:image/gif;base64,R0lG''"
    by (simp add: warm_def)
  note early = timestamped_tiers [OF i, where cfg = settings and now = 60000 and srv = offline
      and i = "''ABC-1''" and p = "''P''" and t = "''task''" and u = "''u1''"
      and w = "''ABC-1''" and a = "''img1''" and iconURL = "''/icons/open.gif''"]
  note late = timestamped_tiers [OF i, where cfg = settings and now = 600000000 and srv = offline
      and i = "''ABC-1''" and p = "''P''" and t = "''task''" and u = "''u1''"
      and w = "''ABC-1''" and a = "''img1''" and iconURL = "''/icons/open.gif''"]
  from early ci f
  have a1: "getWorkItem offline settings 60000 ''ABC-1'' warm = (Some example_item, warm, None)"
    by simp
  from late ci st
  have a2: "sent_count warm <
      sent_count (fst (snd (getWorkItem offline settings 600000000 ''ABC-1'' warm)))" by simp
  from early cs f
  have s1: "snd (getStatusMappings offline settings 60000 ''P'' ''task'' warm) = warm" by simp
  from late cs st
  have s2: "sent_count warm <
      sent_count (snd (getStatusMappings offline settings 600000000 ''P'' ''task'' warm))" by simp
  from early ct f
  have t1: "snd (getWorkitemTypeMappings offline settings 60000 ''P'' warm) = warm" by simp
  from late ct st
  have t2: "sent_count warm <
      sent_count (snd (getWorkitemTypeMappings offline settings 600000000 ''P'' warm))" by simp
  from early cu f
  have u1: "getUserInfo offline settings 60000 ''u1'' warm =
     (\<lparr> user_info.name = ''Ursula'', user_info.email = None, user_info.initials = None \<rparr>, warm)"
    by simp
  from late cu st
  have u2: "sent_count warm < sent_count (snd (getUserInfo offline settings 600000000 ''u1'' warm))"
    by simp
  from early ca
  have d1: "downloadWorkitemAttachmentForProject offline ''ABC-1'' ''img1'' ''P'' warm =
     (Some ''aGVsbG8='', warm)" by simp
  from early cc
  have d2: "downloadStatusIcon offline ''/icons/open.gif'' warm =
     (Some ''data:image/gif;base64,R0lG'', warm)" by simp
  from i f st a1 a2 s1 s2 t1 t2 u1 u2 d1 d2 show ?thesis by (intro conjI)
qed

end
